theory Spec2Isabelle
  imports Main
begin

section \<open>Python text and values\<close>

text \<open>
  Python text is modelled as \<open>string\<close>. Non-ASCII literals of the source (the emoji
  prefixes of the summary, the Chinese messages of the bridge) are written as their UTF-8
  bytes. The value of the \<open>Authorization\<close> header reaches the code decoded as Latin-1, so
  there each \<open>char\<close> is one code point.
\<close>

definition NL :: string where
  "NL = [CHR 0x0A]"

text \<open>\<open>sep.join(lines)\<close>.\<close>

fun join :: "string \<Rightarrow> string list \<Rightarrow> string" where
  "join sep [] = []"
| "join sep [x] = x"
| "join sep (x # y # ys) = x @ sep @ join sep (y # ys)"

text \<open>\<open>str.isspace\<close> on one character of the range 0..255.\<close>

definition py_isspace :: "char \<Rightarrow> bool" where
  "py_isspace c =
     (let n = (of_char c :: nat)
      in (9 \<le> n \<and> n \<le> 13) \<or> (28 \<le> n \<and> n \<le> 32) \<or> n = 133 \<or> n = 160)"

text \<open>
  \<open>s.split()\<close> with no separator: runs of whitespace separate the words, and leading and
  trailing whitespace gives no empty word. \<open>split_aux cur s\<close> carries the word being read.
\<close>

fun split_aux :: "string \<Rightarrow> string \<Rightarrow> string list" where
  "split_aux cur [] = (if cur = [] then [] else [cur])"
| "split_aux cur (c # cs) =
     (if py_isspace c
      then (if cur = [] then split_aux [] cs else cur # split_aux [] cs)
      else split_aux (cur @ [c]) cs)"

definition str_split :: "string \<Rightarrow> string list" where
  "str_split s = split_aux [] s"

text \<open>\<open>str.lower\<close> on the range 0..255: the ASCII capitals and the Latin-1 capitals.\<close>

definition lower_char :: "char \<Rightarrow> char" where
  "lower_char c =
     (let n = (of_char c :: nat)
      in if (65 \<le> n \<and> n \<le> 90) \<or> (192 \<le> n \<and> n \<le> 222 \<and> n \<noteq> 215)
         then char_of (n + 32) else c)"

definition lower :: "string \<Rightarrow> string" where
  "lower s = map lower_char s"

text \<open>
  \<open>key.replace('_', ' ').title()\<close> for metadata keys. \<open>title\<close> is modelled on ASCII
  letters, which is what the keys of this program are made of: a letter that follows a
  letter is lowered, any other letter is raised, every other character is kept and ends
  the word.
\<close>

definition is_ascii_upper :: "char \<Rightarrow> bool" where
  "is_ascii_upper c = (65 \<le> (of_char c :: nat) \<and> (of_char c :: nat) \<le> 90)"

definition is_ascii_lower :: "char \<Rightarrow> bool" where
  "is_ascii_lower c = (97 \<le> (of_char c :: nat) \<and> (of_char c :: nat) \<le> 122)"

definition ascii_to_upper :: "char \<Rightarrow> char" where
  "ascii_to_upper c = (if is_ascii_lower c then char_of ((of_char c :: nat) - 32) else c)"

definition ascii_to_lower :: "char \<Rightarrow> char" where
  "ascii_to_lower c = (if is_ascii_upper c then char_of ((of_char c :: nat) + 32) else c)"

fun title_aux :: "bool \<Rightarrow> string \<Rightarrow> string" where
  "title_aux prev [] = []"
| "title_aux prev (c # cs) =
     (if is_ascii_upper c \<or> is_ascii_lower c
      then (if prev then ascii_to_lower c else ascii_to_upper c) # title_aux True cs
      else c # title_aux False cs)"

definition title :: "string \<Rightarrow> string" where
  "title s = title_aux False s"

definition replace_char :: "char \<Rightarrow> char \<Rightarrow> string \<Rightarrow> string" where
  "replace_char a b s = map (\<lambda>c. if c = a then b else c) s"

text \<open>Decimal rendering of an integer, as \<open>str(n)\<close> and \<open>f"{n}"\<close> give it.\<close>

fun str_nat :: "nat \<Rightarrow> string" where
  "str_nat n =
     (if n < 10 then [''0123456789'' ! n]
      else str_nat (n div 10) @ [''0123456789'' ! (n mod 10)])"

declare str_nat.simps [simp del]

definition str_int :: "int \<Rightarrow> string" where
  "str_int i = (if i < 0 then ''-'' @ str_nat (nat (- i)) else str_nat (nat i))"

text \<open>
  A value of type \<open>Any\<close> held in a metadata mapping. The code looks at such a value in two
  ways only: its truth value and its \<open>str()\<close>. \<open>PObject text truth\<close> stands for every
  value that is not one of the scalars (a list, a dict, a float): it is given by its
  \<open>str()\<close> and its truth value.
\<close>

datatype pyany = PNone | PBool bool | PInt int | PStr string | PObject string bool

fun truthy :: "pyany \<Rightarrow> bool" where
  "truthy PNone = False"
| "truthy (PBool b) = b"
| "truthy (PInt i) = (i \<noteq> 0)"
| "truthy (PStr s) = (s \<noteq> [])"
| "truthy (PObject s t) = t"

fun py_str :: "pyany \<Rightarrow> string" where
  "py_str PNone = ''None''"
| "py_str (PBool b) = (if b then ''True'' else ''False'')"
| "py_str (PInt i) = str_int i"
| "py_str (PStr s) = s"
| "py_str (PObject s t) = s"

text \<open>
  Protocol data: the JSON values of request and response bodies. \<open>JAny\<close> carries a
  handler-supplied metadata value into a response as it is. A Python dict is an
  association list in insertion order.
\<close>

datatype json =
    JNull
  | JBool bool
  | JInt int
  | JStr string
  | JList "json list"
  | JObj "(string \<times> json) list"
  | JAny pyany

text \<open>Dict operations on association lists: \<open>d.get(k)\<close>, \<open>d[k] = v\<close>, \<open>d.pop(k, None)\<close>.\<close>

definition dict_get :: "('k \<times> 'v) list \<Rightarrow> 'k \<Rightarrow> 'v option" where
  "dict_get d k = map_of d k"

fun dict_set :: "'k \<Rightarrow> 'v \<Rightarrow> ('k \<times> 'v) list \<Rightarrow> ('k \<times> 'v) list" where
  "dict_set k v [] = [(k, v)]"
| "dict_set k v ((k', v') # d) =
     (if k' = k then (k, v) # d else (k', v') # dict_set k v d)"

definition dict_pop :: "'k \<Rightarrow> ('k \<times> 'v) list \<Rightarrow> ('k \<times> 'v) list" where
  "dict_pop k d = filter (\<lambda>kv. fst kv \<noteq> k) d"

definition dict_keys :: "('k \<times> 'v) list \<Rightarrow> 'k list" where
  "dict_keys d = map fst d"

section \<open>schemas.py: ExecutionResult\<close>

record ExecutionResult =
  success :: bool
  stdout :: string
  stderr :: string
  returncode :: int
  execution_time :: string
  metadata :: "(string \<times> pyany) list"
  error_type :: string
  error_message :: string

definition EMOJI_FOLDER :: string where
  "EMOJI_FOLDER = [CHR 0xF0, CHR 0x9F, CHR 0x93, CHR 0x81]"

definition EMOJI_TIMER :: string where
  "EMOJI_TIMER = [CHR 0xE2, CHR 0x8F, CHR 0xB1, CHR 0xEF, CHR 0xB8, CHR 0x8F]"

definition EMOJI_NUMBERS :: string where
  "EMOJI_NUMBERS = [CHR 0xF0, CHR 0x9F, CHR 0x94, CHR 0xA2]"

definition EMOJI_CROSS :: string where
  "EMOJI_CROSS = [CHR 0xE2, CHR 0x9D, CHR 0x8C]"

definition EMOJI_OUTBOX :: string where
  "EMOJI_OUTBOX = [CHR 0xF0, CHR 0x9F, CHR 0x93, CHR 0xA4]"

definition EMOJI_WARNING :: string where
  "EMOJI_WARNING = [CHR 0xE2, CHR 0x9A, CHR 0xA0, CHR 0xEF, CHR 0xB8, CHR 0x8F]"

text \<open>The line appended for one metadata item, when the item passes the test of the loop.\<close>

definition metadata_line :: "string \<Rightarrow> pyany \<Rightarrow> string" where
  "metadata_line key v =
     EMOJI_FOLDER @ '' '' @ title (replace_char (CHR ''_'') (CHR '' '') key) @ '': '' @ py_str v"

text \<open>
  The body of the \<open>for key, value in self.metadata.items()\<close> loop: it appends to
  \<open>lines\<close> when \<open>value and key not in ["version_info"]\<close>.
\<close>

fun metadata_loop :: "(string \<times> pyany) list \<Rightarrow> string list \<Rightarrow> string list" where
  "metadata_loop [] lines = lines"
| "metadata_loop ((key, v) # items) lines =
     (if truthy v \<and> key \<notin> set [''version_info'']
      then metadata_loop items (lines @ [metadata_line key v])
      else metadata_loop items lines)"

definition time_line :: "ExecutionResult \<Rightarrow> string" where
  "time_line r = EMOJI_TIMER @ '' Execution Time: '' @ execution_time r"

definition code_line :: "ExecutionResult \<Rightarrow> string" where
  "code_line r = EMOJI_NUMBERS @ '' Return Code: '' @ str_int (returncode r)"

definition error_line :: "ExecutionResult \<Rightarrow> string" where
  "error_line r = EMOJI_CROSS @ '' Error: ['' @ error_type r @ ''] '' @ error_message r"

definition stdout_block :: "ExecutionResult \<Rightarrow> string" where
  "stdout_block r = EMOJI_OUTBOX @ '' Standard Output:'' @ NL @ stdout r"

definition stderr_block :: "ExecutionResult \<Rightarrow> string" where
  "stderr_block r = EMOJI_WARNING @ '' Standard Error:'' @ NL @ stderr r"

text \<open>\<open>ExecutionResult.to_text_output\<close>, statement by statement on the list \<open>lines\<close>.\<close>

definition to_text_output :: "ExecutionResult \<Rightarrow> string" where
  "to_text_output r =
     (let lines0 = metadata_loop (metadata r) [];
          lines1 = lines0 @ [time_line r];
          lines2 = lines1 @ [code_line r];
          lines3 = (if \<not> success r then lines2 @ [error_line r] else lines2);
          lines4 = (if stdout r \<noteq> [] then lines3 @ [stdout_block r] else lines3);
          lines5 = (if stderr r \<noteq> [] then lines4 @ [stderr_block r] else lines4)
      in join NL lines5)"

section \<open>utils.py: format_tool_result\<close>

text \<open>
  \<open>format_tool_result\<close> builds the dict \<open>response\<close> and adds the key \<open>metadata\<close> when
  \<open>result.metadata\<close> is truthy, that is, a non-empty dict. The log line it writes has no
  effect on the value returned.
\<close>

definition metadata_json :: "(string \<times> pyany) list \<Rightarrow> json" where
  "metadata_json md = JObj (map (\<lambda>kv. (fst kv, JAny (snd kv))) md)"

definition format_tool_result :: "ExecutionResult \<Rightarrow> (string \<times> json) list" where
  "format_tool_result result =
     (let text_output = to_text_output result;
          response = [(''content'', JList [JObj [(''type'', JStr ''text''), (''text'', JStr text_output)]]),
                      (''isError'', JBool (\<not> success result))]
      in if metadata result \<noteq> []
         then dict_set ''metadata'' (metadata_json (metadata result)) response
         else response)"

section \<open>fnmatch\<close>

text \<open>
  \<open>fnmatch.fnmatch(name, pattern)\<close> belongs to the Python library, not to this program.
  Every function below that matches patterns takes the matcher as its first argument
  \<open>fnm\<close> (\<open>fnm name pattern\<close>), and every theorem holds for every matcher.
  \<open>glob_match\<close> is the library's matching on a POSIX host for patterns made of literal
  characters, \<open>*\<close> and \<open>?\<close>; it is the matcher of the concrete examples, none of which has
  a bracket set.
\<close>

fun glob_match :: "string \<Rightarrow> string \<Rightarrow> bool" where
  "glob_match [] [] = True"
| "glob_match (c # cs) [] = False"
| "glob_match [] (p # ps) = (p = CHR ''*'' \<and> glob_match [] ps)"
| "glob_match (c # cs) (p # ps) =
     (if p = CHR ''*'' then glob_match (c # cs) ps \<or> glob_match cs (p # ps)
      else if p = CHR ''?'' then glob_match cs ps
      else c = p \<and> glob_match cs ps)"

section \<open>security.py\<close>

text \<open>
  \<open>API_KEYS\<close> maps a token to its configuration, a dict with the optional keys
  \<open>tools\<close>, \<open>exclude_tools\<close> and \<open>gmail_account\<close>.
\<close>

record key_config =
  tools :: "string list option"
  exclude_tools :: "string list option"
  gmail_account :: "string option"

type_synonym api_keys = "(string \<times> key_config) list"

text \<open>
  The body of a POST, as \<open>req.json()\<close> returns it and as the endpoint reads it:
  \<open>body.get("id")\<close>, \<open>body.get("method")\<close>, \<open>params.get("name")\<close> and
  \<open>params.get("arguments", {})\<close>. The input type is a JSON object whose method, when
  present, is a string, and whose \<open>params.name\<close> is a string.
\<close>

record rpc_body =
  rpc_id :: json
  rpc_method :: "string option"
  rpc_tool_name :: string
  rpc_arguments :: json

text \<open>
  A request: the value of its \<open>Authorization\<close> header (\<open>None\<close> when absent), its path,
  its body (\<open>None\<close> when \<open>req.json()\<close> raises) and the attributes of \<open>request.state\<close>
  that \<open>verify_api_key\<close> sets (\<open>None\<close> while unset).
\<close>

record request =
  authorization :: "string option"
  url_path :: string
  json_body :: "rpc_body option"
  state_allowed_tools :: "string list option"
  state_excluded_tools :: "string list option"
  state_api_key :: "string option"

datatype http_exception = HTTPException int string "(string \<times> string) list"

definition QUOTE :: string where
  "QUOTE = [CHR 0x27]"

definition MISSING_HEADER_DETAIL :: string where
  "MISSING_HEADER_DETAIL =
     ''Missing Authorization Header. Expected format: '' @ QUOTE
       @ ''Authorization: Bearer <token>'' @ QUOTE"

definition INVALID_FORMAT_DETAIL :: string where
  "INVALID_FORMAT_DETAIL =
     ''Invalid Authorization format. Expected '' @ QUOTE @ ''Bearer <token>'' @ QUOTE"

definition opt_list :: "'a list option \<Rightarrow> 'a list" where
  "opt_list x = (case x of None \<Rightarrow> [] | Some xs \<Rightarrow> xs)"

text \<open>
  \<open>verify_api_key\<close> returns the allowed tools and leaves its marks on \<open>request.state\<close>,
  or raises an \<open>HTTPException\<close>. \<open>case parts of [scheme, token]\<close> is the test
  \<open>len(parts) != 2 or parts[0].lower() != "bearer"\<close>.
\<close>

definition verify_api_key :: "api_keys \<Rightarrow> request \<Rightarrow> http_exception + (string list \<times> request)" where
  "verify_api_key API_KEYS request =
     (if API_KEYS = [] then Inr ([''*''], request\<lparr>state_allowed_tools := Some [''*'']\<rparr>)
      else
        (case authorization request of
           None \<Rightarrow> Inl (HTTPException 401 MISSING_HEADER_DETAIL [(''WWW-Authenticate'', ''Bearer'')])
         | Some auth_header \<Rightarrow>
             if auth_header = []
             then Inl (HTTPException 401 MISSING_HEADER_DETAIL [(''WWW-Authenticate'', ''Bearer'')])
             else
               (case str_split auth_header of
                  [scheme, token] \<Rightarrow>
                    if lower scheme \<noteq> ''bearer''
                    then Inl (HTTPException 401 INVALID_FORMAT_DETAIL [(''WWW-Authenticate'', ''Bearer'')])
                    else
                      (case dict_get API_KEYS token of
                         None \<Rightarrow> Inl (HTTPException 403 ''Invalid API Key'' [])
                       | Some cfg \<Rightarrow>
                           (let allowed_tools = opt_list (tools cfg);
                                excluded_tools = opt_list (exclude_tools cfg)
                            in Inr (allowed_tools,
                                    request\<lparr>state_allowed_tools := Some allowed_tools,
                                            state_excluded_tools := Some excluded_tools,
                                            state_api_key := Some token\<rparr>)))
                | _ \<Rightarrow> Inl (HTTPException 401 INVALID_FORMAT_DETAIL [(''WWW-Authenticate'', ''Bearer'')]))))"

definition get_allowed_tools :: "request \<Rightarrow> string list" where
  "get_allowed_tools request =
     (case state_allowed_tools request of None \<Rightarrow> [''*''] | Some xs \<Rightarrow> xs)"

definition get_excluded_tools :: "request \<Rightarrow> string list" where
  "get_excluded_tools request =
     (case state_excluded_tools request of None \<Rightarrow> [] | Some xs \<Rightarrow> xs)"

text \<open>\<open>any(f(x) for x in xs)\<close> is \<open>list_ex f xs\<close>.\<close>

definition is_tool_allowed :: "(string \<Rightarrow> string \<Rightarrow> bool) \<Rightarrow> request \<Rightarrow> string \<Rightarrow> bool" where
  "is_tool_allowed fnm request tool_name =
     (let excluded_tools = get_excluded_tools request
      in if excluded_tools \<noteq> [] \<and> list_ex (fnm tool_name) excluded_tools then False
         else
           (let allowed_tools = get_allowed_tools request
            in if ''*'' \<in> set allowed_tools then True
               else list_ex (fnm tool_name) allowed_tools))"

text \<open>
  \<open>tool.get("name", "")\<close> on an entry of the tools list. The entries come from
  \<open>list_tools\<close>, where the name is a string.
\<close>

definition tool_name_of :: "(string \<times> json) list \<Rightarrow> string" where
  "tool_name_of tool = (case dict_get tool ''name'' of Some (JStr s) \<Rightarrow> s | _ \<Rightarrow> [])"

definition filter_allowed_tools ::
  "(string \<Rightarrow> string \<Rightarrow> bool) \<Rightarrow> request \<Rightarrow> (string \<times> json) list list \<Rightarrow> (string \<times> json) list list" where
  "filter_allowed_tools fnm request all_tools =
     (let allowed_tools = get_allowed_tools request;
          excluded_tools = get_excluded_tools request;
          is_excluded = (\<lambda>tool_name. list_ex (fnm tool_name) excluded_tools);
          is_allowed = (\<lambda>tool_name.
             if ''*'' \<in> set allowed_tools then True else list_ex (fnm tool_name) allowed_tools)
      in filter (\<lambda>tool. is_allowed (tool_name_of tool) \<and> \<not> is_excluded (tool_name_of tool))
           all_tools)"

text \<open>
  The mailbox bound to a request: \<open>get_api_key_config\<close> takes the token from
  \<open>request.state\<close>, or else from a header that starts with \<open>"Bearer "\<close>, and
  \<open>get_gmail_account\<close> reads \<open>gmail_account\<close> from its configuration.
\<close>

definition get_api_key_config :: "api_keys \<Rightarrow> request \<Rightarrow> key_config option" where
  "get_api_key_config API_KEYS request =
     (let api_key0 = (case state_api_key request of None \<Rightarrow> [] | Some k \<Rightarrow> k);
          auth_header = (case authorization request of None \<Rightarrow> [] | Some h \<Rightarrow> h);
          api_key = (if api_key0 = []
                     then (if take 7 auth_header = ''Bearer '' then drop 7 auth_header else [])
                     else api_key0)
      in if api_key = [] then None else dict_get API_KEYS api_key)"

definition get_gmail_account :: "api_keys \<Rightarrow> request \<Rightarrow> string option" where
  "get_gmail_account API_KEYS request =
     (case get_api_key_config API_KEYS request of None \<Rightarrow> None | Some cfg \<Rightarrow> gmail_account cfg)"

section \<open>tools/base.py: the registry\<close>

text \<open>
  What a handler is called with: \<open>handler(args)\<close> or \<open>handler(args, request=request)\<close>.
  What it raises: an \<open>MCPError\<close>, a \<open>ValueError\<close>, or another exception, given by its
  \<open>str()\<close>.
\<close>

datatype call = CallArgs json | CallArgsRequest json request

datatype raised = MCPError int string "json option" | ValueError string | OtherException string

text \<open>
  \<open>handler_params\<close> is \<open>list(inspect.signature(handler).parameters.keys())\<close>, the names
  the handler declares.
\<close>

record ToolDefinition =
  name :: string
  description :: string
  input_schema :: json
  handler_params :: "string list"
  handler :: "call \<Rightarrow> raised + ExecutionResult"

type_synonym registry = "(string \<times> ToolDefinition) list"

text \<open>
  \<open>register(name, description, input_schema)(handler)\<close>: the decorator stores the
  definition with \<open>self._tools[name] = ...\<close> and raises nothing.
\<close>

definition register ::
  "string \<Rightarrow> string \<Rightarrow> json \<Rightarrow> string list \<Rightarrow> (call \<Rightarrow> raised + ExecutionResult) \<Rightarrow> registry \<Rightarrow> registry" where
  "register nm descr schema params h tools_dict =
     dict_set nm \<lparr>name = nm, description = descr, input_schema = schema,
                  handler_params = params, handler = h\<rparr> tools_dict"

definition list_tools :: "registry \<Rightarrow> (string \<times> json) list list" where
  "list_tools tools_dict =
     map (\<lambda>kt. [(''name'', JStr (name (snd kt))),
                (''description'', JStr (description (snd kt))),
                (''inputSchema'', input_schema (snd kt))]) tools_dict"

text \<open>The call that \<open>execute\<close> makes on the handler it found.\<close>

definition handler_call :: "ToolDefinition \<Rightarrow> json \<Rightarrow> request option \<Rightarrow> call" where
  "handler_call tool args request =
     (case request of
        Some rq \<Rightarrow> if ''request'' \<in> set (handler_params tool) then CallArgsRequest args rq
                   else CallArgs args
      | None \<Rightarrow> CallArgs args)"

definition execute :: "registry \<Rightarrow> string \<Rightarrow> json \<Rightarrow> request option \<Rightarrow> raised + ExecutionResult" where
  "execute tools_dict nm args request =
     (case dict_get tools_dict nm of
        None \<Rightarrow> Inl (MCPError (- 32601) (''Tool not found: '' @ nm) None)
      | Some tool \<Rightarrow> handler tool (handler_call tool args request))"

definition get_tool_count :: "registry \<Rightarrow> nat" where
  "get_tool_count tools_dict = length tools_dict"

section \<open>app.py: the RPC endpoint\<close>

text \<open>
  A \<open>JSONResponse\<close>: its status, its content and the \<open>headers\<close> argument given to its
  constructor (empty when none is given).
\<close>

record response =
  status_code :: int
  content :: json
  headers :: "(string \<times> string) list"

text \<open>The handler registered for \<open>HTTPException\<close>.\<close>

fun http_exception_handler :: "request \<Rightarrow> http_exception \<Rightarrow> response" where
  "http_exception_handler request (HTTPException exc_status exc_detail exc_headers) =
     \<lparr>status_code = exc_status,
      content = JObj
        [(''jsonrpc'', if url_path request = ''/mcp'' then JStr ''2.0'' else JNull),
         (''id'', JNull),
         (''error'', JObj
            [(''code'', JInt (if exc_status = 401 then - 32000 else - 32001)),
             (''message'', JStr exc_detail),
             (''status_code'', JInt exc_status)])],
      headers = []\<rparr>"

definition handle_initialize :: "(string \<times> json) list" where
  "handle_initialize =
     [(''protocolVersion'', JStr ''2024-11-05''),
      (''capabilities'', JObj [(''tools'', JObj []), (''resources'', JObj []), (''prompts'', JObj [])]),
      (''serverInfo'', JObj
         [(''name'', JStr ''NATE-MCP-SERVER''),
          (''version'', JStr ''4.0.0''),
          (''architecture'', JStr ''modular''),
          (''features'', JList [JStr ''python_execution'', JStr ''package_management'',
                               JStr ''version_query'', JStr ''shell_execution''])])]"

definition handle_tools_list ::
  "(string \<Rightarrow> string \<Rightarrow> bool) \<Rightarrow> registry \<Rightarrow> request \<Rightarrow> (string \<times> json) list" where
  "handle_tools_list fnm tools_dict request =
     (let all_tools = list_tools tools_dict;
          filtered_tools = filter_allowed_tools fnm request all_tools
      in [(''tools'', JList (map JObj filtered_tools))])"

definition permission_denied :: "string \<Rightarrow> raised" where
  "permission_denied tool_name =
     MCPError (- 32603)
       (''Permission denied: Tool '' @ QUOTE @ tool_name @ QUOTE @ '' is not allowed for this API Key'')
       (Some (JObj [(''tool'', JStr tool_name)]))"

definition handle_tools_call ::
  "(string \<Rightarrow> string \<Rightarrow> bool) \<Rightarrow> registry \<Rightarrow> rpc_body \<Rightarrow> request \<Rightarrow> raised + (string \<times> json) list" where
  "handle_tools_call fnm tools_dict body request =
     (let tool_name = rpc_tool_name body;
          args = rpc_arguments body
      in if \<not> is_tool_allowed fnm request tool_name then Inl (permission_denied tool_name)
         else
           (case execute tools_dict tool_name args (Some request) of
              Inl e \<Rightarrow> Inl e
            | Inr exec_result \<Rightarrow> Inr (format_tool_result exec_result)))"

text \<open>The \<open>try\<close> block of \<open>mcp_endpoint\<close>: the branch on \<open>method\<close>.\<close>

definition dispatch ::
  "(string \<Rightarrow> string \<Rightarrow> bool) \<Rightarrow> registry \<Rightarrow> rpc_body \<Rightarrow> request \<Rightarrow> raised + (string \<times> json) list" where
  "dispatch fnm tools_dict body req =
     (let method = rpc_method body
      in if method = Some ''initialize'' then Inr handle_initialize
         else if method = Some ''tools/list'' then Inr (handle_tools_list fnm tools_dict req)
         else if method = Some ''tools/call'' then handle_tools_call fnm tools_dict body req
         else Inl (MCPError (- 32601)
                     (''Method not found: '' @ (case method of None \<Rightarrow> ''None'' | Some m \<Rightarrow> m))
                     None))"

definition opt_json :: "json option \<Rightarrow> json" where
  "opt_json x = (case x of None \<Rightarrow> JNull | Some j \<Rightarrow> j)"

text \<open>The \<open>except\<close> clauses of \<open>mcp_endpoint\<close>, in their order.\<close>

fun error_envelope :: "json \<Rightarrow> raised \<Rightarrow> json" where
  "error_envelope req_id (MCPError code message data) =
     JObj [(''jsonrpc'', JStr ''2.0''), (''id'', req_id),
           (''error'', JObj [(''code'', JInt code), (''message'', JStr message),
                             (''data'', opt_json data)])]"
| "error_envelope req_id (ValueError e) =
     JObj [(''jsonrpc'', JStr ''2.0''), (''id'', req_id),
           (''error'', JObj [(''code'', JInt (- 32602)),
                             (''message'', JStr (''Invalid params: '' @ e))])]"
| "error_envelope req_id (OtherException e) =
     JObj [(''jsonrpc'', JStr ''2.0''), (''id'', req_id),
           (''error'', JObj [(''code'', JInt (- 32603)),
                             (''message'', JStr (''Internal error: '' @ e))])]"

definition PARSE_ERROR :: json where
  "PARSE_ERROR =
     JObj [(''jsonrpc'', JStr ''2.0''), (''id'', JNull),
           (''error'', JObj [(''code'', JInt (- 32700)),
                             (''message'', JStr ''Parse error: Invalid JSON'')])]"

text \<open>
  \<open>mcp_endpoint\<close> returns the dict of the response body, or lets the \<open>HTTPException\<close> of
  \<open>verify_api_key\<close> through. \<open>req'\<close> is the request with the state \<open>verify_api_key\<close> set.
\<close>

definition mcp_endpoint ::
  "(string \<Rightarrow> string \<Rightarrow> bool) \<Rightarrow> api_keys \<Rightarrow> registry \<Rightarrow> request \<Rightarrow> http_exception + json" where
  "mcp_endpoint fnm API_KEYS tools_dict req =
     (case verify_api_key API_KEYS req of
        Inl exc \<Rightarrow> Inl exc
      | Inr (allowed, req') \<Rightarrow>
          (case json_body req' of
             None \<Rightarrow> Inr PARSE_ERROR
           | Some body \<Rightarrow>
               (let req_id = rpc_id body
                in case dispatch fnm tools_dict body req' of
                     Inr result \<Rightarrow>
                       Inr (JObj [(''jsonrpc'', JStr ''2.0''), (''id'', req_id), (''result'', JObj result)])
                   | Inl e \<Rightarrow> Inr (error_envelope req_id e))))"

text \<open>
  The HTTP exchange of \<open>POST /mcp\<close>: a dict returned by the endpoint is sent with status
  200, an \<open>HTTPException\<close> goes through \<open>http_exception_handler\<close>.
\<close>

definition post_mcp ::
  "(string \<Rightarrow> string \<Rightarrow> bool) \<Rightarrow> api_keys \<Rightarrow> registry \<Rightarrow> request \<Rightarrow> response" where
  "post_mcp fnm API_KEYS tools_dict req =
     (case mcp_endpoint fnm API_KEYS tools_dict req of
        Inl exc \<Rightarrow> http_exception_handler req exc
      | Inr body \<Rightarrow> \<lparr>status_code = 200, content = body, headers = []\<rparr>)"

text \<open>Reading a key of a JSON object; \<open>None\<close> when the value is no object or has no such key.\<close>

definition json_get :: "json \<Rightarrow> string \<Rightarrow> json option" where
  "json_get j k = (case j of JObj d \<Rightarrow> dict_get d k | _ \<Rightarrow> None)"

section \<open>remote/connection_manager.py: the agent bridge\<close>

text \<open>
  The manager runs on one event loop: between two \<open>await\<close>s a coroutine runs alone. The
  model is a state and one function for each such atomic piece. The state holds the
  attributes of the manager (\<open>websocket\<close>, \<open>pending_requests\<close>, \<open>connection_info\<close>) and the
  objects they refer to: which transports are open, the state of every future created
  (an explicit store, a future being its index), and the frames written on each
  connection.
\<close>

type_synonym conn = nat

type_synonym fut = nat

text \<open>
  A frame of type \<open>response\<close>, as \<open>_handle_message\<close> and \<open>send_command\<close> read it:
  \<open>data.get("request_id")\<close>, \<open>result.get("success", False)\<close>, \<open>result.get("data", {})\<close>
  and \<open>result.get("error", ...)\<close>, each \<open>None\<close> when the key is absent.
\<close>

record reply =
  reply_request_id :: "string option"
  reply_success :: "bool option"
  reply_data :: "json option"
  reply_error :: "string option"

text \<open>
  A message of the receive loop: text that \<open>json.loads\<close> rejects, a frame of type
  \<open>response\<close>, of type \<open>event\<close>, or of any other type.
\<close>

datatype frame = Unparseable | Response reply | EventFrame | UnknownFrame

datatype fut_state = FPending | FResult reply | FCancelled

datatype out_frame =
    ErrorFrame string
  | AuthFailed string
  | AuthSuccess
  | Command string string json

record bridge =
  websocket :: "conn option"
  pending_requests :: "(string \<times> fut) list"
  connection_info :: "(string \<times> string) list"
  open_conns :: "conn list"
  futures :: "fut_state list"
  sent :: "(conn \<times> out_frame) list"

definition initial_bridge :: bridge where
  "initial_bridge =
     \<lparr>websocket = None, pending_requests = [], connection_info = [],
      open_conns = [], futures = [], sent = []\<rparr>"

definition is_connected :: "bridge \<Rightarrow> bool" where
  "is_connected st =
     (case websocket st of None \<Rightarrow> False | Some ws \<Rightarrow> ws \<in> set (open_conns st))"

text \<open>The server accepts a transport; \<open>websocket.close()\<close>; \<open>websocket.send(frame)\<close>.\<close>

definition accept :: "conn \<Rightarrow> bridge \<Rightarrow> bridge" where
  "accept ws st = st\<lparr>open_conns := ws # open_conns st\<rparr>"

definition close :: "conn \<Rightarrow> bridge \<Rightarrow> bridge" where
  "close ws st = st\<lparr>open_conns := removeAll ws (open_conns st)\<rparr>"

text \<open>A send that raises (\<open>ok = False\<close>) writes nothing.\<close>

definition ws_send :: "bool \<Rightarrow> conn \<Rightarrow> out_frame \<Rightarrow> bridge \<Rightarrow> bridge" where
  "ws_send ok ws f st = (if ok then st\<lparr>sent := sent st @ [(ws, f)]\<rparr> else st)"

text \<open>
  The first frame of a connection, as the handshake reads it: \<open>auth_data.get("type")\<close>,
  \<open>auth_data.get("token")\<close> and the three fields kept in \<open>connection_info\<close>.
\<close>

record auth_data =
  auth_type :: "string option"
  auth_token :: "string option"
  auth_client_id :: "string option"
  auth_user_agent :: "string option"
  auth_timestamp :: "string option"

text \<open>
  What the first \<open>recv\<close> gives: nothing within 10 seconds, something that raises while
  it is read or parsed, or a frame.
\<close>

datatype auth_input = AuthTimeout | AuthGarbage | AuthFrame auth_data

definition NEED_AUTH :: string where
  "NEED_AUTH = [CHR 0xE9, CHR 0x9C, CHR 0x80, CHR 0xE8, CHR 0xA6, CHR 0x81, CHR 0xE8, CHR 0xAA,
                CHR 0x8D, CHR 0xE8, CHR 0xAD, CHR 0x89]"

definition TOKEN_INVALID :: string where
  "TOKEN_INVALID = ''Token '' @ [CHR 0xE7, CHR 0x84, CHR 0xA1, CHR 0xE6, CHR 0x95, CHR 0x88]"

definition NO_AGENT :: string where
  "NO_AGENT = [CHR 0xE7, CHR 0x84, CHR 0xA1, CHR 0xE9, CHR 0x81, CHR 0xA0, CHR 0xE7, CHR 0xAB,
               CHR 0xAF] @ '' Browser Agent ''
              @ [CHR 0xE9, CHR 0x80, CHR 0xA3, CHR 0xE7, CHR 0xB7, CHR 0x9A]"

definition REMOTE_FAILED :: string where
  "REMOTE_FAILED = [CHR 0xE9, CHR 0x81, CHR 0xA0, CHR 0xE7, CHR 0xAB, CHR 0xAF, CHR 0xE5, CHR 0x9F,
                    CHR 0xB7, CHR 0xE8, CHR 0xA1, CHR 0x8C, CHR 0xE5, CHR 0xA4, CHR 0xB1, CHR 0xE6,
                    CHR 0x95, CHR 0x97] @ '': ''"

definition UNKNOWN_ERROR :: string where
  "UNKNOWN_ERROR = [CHR 0xE6, CHR 0x9C, CHR 0xAA, CHR 0xE7, CHR 0x9F, CHR 0xA5, CHR 0xE9, CHR 0x8C,
                    CHR 0xAF, CHR 0xE8, CHR 0xAA, CHR 0xA4]"

definition or_unknown :: "string option \<Rightarrow> string" where
  "or_unknown x = (case x of None \<Rightarrow> ''unknown'' | Some s \<Rightarrow> s)"

text \<open>
  The first \<open>try\<close> block of \<open>handler(websocket)\<close>. The result is \<open>True\<close> when the handler
  goes on to its message loop. \<open>send_ok\<close> tells whether the one \<open>websocket.send\<close> of the
  block returns; when it raises, the \<open>except Exception\<close> clause closes the connection.
\<close>

definition handshake :: "string \<Rightarrow> conn \<Rightarrow> auth_input \<Rightarrow> bool \<Rightarrow> bridge \<Rightarrow> bool \<times> bridge" where
  "handshake REMOTE_BROWSER_TOKEN ws inp send_ok st =
     (case inp of
        AuthTimeout \<Rightarrow> (False, close ws st)
      | AuthGarbage \<Rightarrow> (False, close ws st)
      | AuthFrame d \<Rightarrow>
          if auth_type d \<noteq> Some ''auth''
          then (False, close ws (ws_send send_ok ws (ErrorFrame NEED_AUTH) st))
          else if auth_token d \<noteq> Some REMOTE_BROWSER_TOKEN
          then (False, close ws (ws_send send_ok ws (AuthFailed TOKEN_INVALID) st))
          else
            (let st1 = st\<lparr>websocket := Some ws,
                           connection_info :=
                             [(''client_id'', or_unknown (auth_client_id d)),
                              (''user_agent'', or_unknown (auth_user_agent d)),
                              (''connected_at'', (case auth_timestamp d of None \<Rightarrow> [] | Some t \<Rightarrow> t))]\<rparr>
             in if send_ok then (True, ws_send True ws AuthSuccess st1)
                else (False, close ws st1)))"

text \<open>
  The \<open>finally\<close> clause of the message loop of connection \<open>ws\<close>: the transport is gone and
  the manager forgets its connection, whichever it is.
\<close>

definition message_loop_end :: "conn \<Rightarrow> bridge \<Rightarrow> bridge" where
  "message_loop_end ws st = (close ws st)\<lparr>websocket := None, connection_info := []\<rparr>"

definition fut_done :: "bridge \<Rightarrow> fut \<Rightarrow> bool" where
  "fut_done st f = (f < length (futures st) \<and> futures st ! f \<noteq> FPending)"

definition handle_message :: "frame \<Rightarrow> bridge \<Rightarrow> bridge" where
  "handle_message message st =
     (case message of
        Response data \<Rightarrow>
          (case reply_request_id data of
             None \<Rightarrow> st
           | Some request_id \<Rightarrow>
               (case dict_get (pending_requests st) request_id of
                  None \<Rightarrow> st
                | Some future \<Rightarrow>
                    (let st1 = st\<lparr>pending_requests := dict_pop request_id (pending_requests st)\<rparr>
                     in if \<not> fut_done st1 future
                        then st1\<lparr>futures := (futures st1)[future := FResult data]\<rparr>
                        else st1)))
      | _ \<Rightarrow> st)"

text \<open>
  What happens on the loop while a call is suspended: a message is handled, a transport
  is accepted, a handshake runs, the message loop of a connection ends.
\<close>

datatype event =
    Message frame
  | Accept conn
  | Handshake conn auth_input bool
  | LoopEnd conn

definition env_step :: "string \<Rightarrow> event \<Rightarrow> bridge \<Rightarrow> bridge" where
  "env_step REMOTE_BROWSER_TOKEN ev st =
     (case ev of
        Message m \<Rightarrow> handle_message m st
      | Accept ws \<Rightarrow> accept ws st
      | Handshake ws inp ok \<Rightarrow> snd (handshake REMOTE_BROWSER_TOKEN ws inp ok st)
      | LoopEnd ws \<Rightarrow> message_loop_end ws st)"

text \<open>
  What \<open>send_command\<close> raises: \<open>RuntimeError\<close>, \<open>asyncio.TimeoutError\<close>, the exception
  of a send that failed (given by its text), and \<open>asyncio.CancelledError\<close>, which the
  event loop raises at an \<open>await\<close> when the task that runs the call is cancelled.
  \<open>CancelledError\<close> derives from \<open>BaseException\<close>: neither \<open>except asyncio.TimeoutError\<close>
  nor \<open>except Exception\<close> catches it.
\<close>

datatype cmd_exn = RuntimeError string | TimeoutError | SendError string | CancelledError

text \<open>\<open>asyncio.get_event_loop().create_future()\<close>: a new pending future.\<close>

definition create_future :: "bridge \<Rightarrow> fut \<times> bridge" where
  "create_future st = (length (futures st), st\<lparr>futures := futures st @ [FPending]\<rparr>)"

text \<open>
  How \<open>await self._websocket.send(...)\<close> ends: it returns, it raises an exception
  (given by its text), or the task is cancelled while it waits there.
\<close>

datatype send_outcome = SendReturns | SendRaises string | SendCancelled

text \<open>
  \<open>send_command\<close> up to its second \<open>await\<close>: the test of \<open>is_connected\<close>, the new future,
  its slot under \<open>request_id\<close>, and the send of the command frame. The identifier
  \<open>request_id\<close> is the \<open>uuid4\<close> drawn by the call. When the send raises, the
  \<open>except Exception\<close> clause removes the slot; when the task is cancelled there, no clause
  runs and the slot stays.
\<close>

definition issue_command ::
  "string \<Rightarrow> string \<Rightarrow> json \<Rightarrow> send_outcome \<Rightarrow> bridge \<Rightarrow> (cmd_exn + fut) \<times> bridge" where
  "issue_command request_id action params send_out st =
     (case websocket st of
        None \<Rightarrow> (Inl (RuntimeError NO_AGENT), st)
      | Some ws \<Rightarrow>
          if ws \<notin> set (open_conns st) then (Inl (RuntimeError NO_AGENT), st)
          else
            (let (future, st1) = create_future st;
                 st2 = st1\<lparr>pending_requests := dict_set request_id future (pending_requests st1)\<rparr>
             in case send_out of
                  SendRaises e \<Rightarrow>
                    (Inl (SendError e),
                     st2\<lparr>pending_requests := dict_pop request_id (pending_requests st2)\<rparr>)
                | SendCancelled \<Rightarrow> (Inl CancelledError, st2)
                | SendReturns \<Rightarrow>
                    (Inr future, ws_send True ws (Command request_id action params) st2)))"

text \<open>
  What happens while the call is suspended in \<open>asyncio.wait_for(future, timeout)\<close>: an
  event of the bridge, or the cancellation of the task that runs the call.
\<close>

datatype wait_event = Happens event | CancelTask

datatype wait_outcome = WaitResult reply | WaitTimeout | WaitCancelled

text \<open>
  \<open>asyncio.wait_for(future, timeout)\<close>: the call resumes with the result once the
  future has one. The list holds what happens before the timeout, in order. When the
  list is over with the future still pending, the future is cancelled and the wait ends
  with \<open>TimeoutError\<close>; when the task is cancelled first, the future is cancelled and
  the wait ends with \<open>CancelledError\<close>.
\<close>

fun wait_for :: "string \<Rightarrow> fut \<Rightarrow> wait_event list \<Rightarrow> bridge \<Rightarrow> wait_outcome \<times> bridge" where
  "wait_for T future [] st =
     (case futures st ! future of
        FResult r \<Rightarrow> (WaitResult r, st)
      | _ \<Rightarrow> (WaitTimeout, st\<lparr>futures := (futures st)[future := FCancelled]\<rparr>))"
| "wait_for T future (CancelTask # evs) st =
     (case futures st ! future of
        FResult r \<Rightarrow> (WaitResult r, st)
      | _ \<Rightarrow> (WaitCancelled, st\<lparr>futures := (futures st)[future := FCancelled]\<rparr>))"
| "wait_for T future (Happens ev # evs) st =
     (case futures st ! future of
        FResult r \<Rightarrow> (WaitResult r, st)
      | _ \<Rightarrow> wait_for T future evs (env_step T ev st))"

text \<open>
  The rest of \<open>send_command\<close>, from the outcome of the wait: the two \<open>except\<close> clauses
  remove the slot and raise again; a result with \<open>success\<close> not true raises
  \<open>RuntimeError\<close> inside the \<open>try\<close>, so it passes through \<open>except Exception\<close>; a
  \<open>CancelledError\<close> passes through no clause.
\<close>

definition finish_command ::
  "string \<Rightarrow> wait_outcome \<times> bridge \<Rightarrow> (cmd_exn + json) \<times> bridge" where
  "finish_command request_id w =
     (case w of
        (WaitTimeout, st) \<Rightarrow>
          (Inl TimeoutError, st\<lparr>pending_requests := dict_pop request_id (pending_requests st)\<rparr>)
      | (WaitCancelled, st) \<Rightarrow> (Inl CancelledError, st)
      | (WaitResult result, st) \<Rightarrow>
          if \<not> (case reply_success result of None \<Rightarrow> False | Some b \<Rightarrow> b)
          then (Inl (RuntimeError (REMOTE_FAILED
                       @ (case reply_error result of None \<Rightarrow> UNKNOWN_ERROR | Some e \<Rightarrow> e))),
                st\<lparr>pending_requests := dict_pop request_id (pending_requests st)\<rparr>)
          else (Inr (case reply_data result of None \<Rightarrow> JObj [] | Some d \<Rightarrow> d), st))"

definition send_command ::
  "string \<Rightarrow> string \<Rightarrow> string \<Rightarrow> json \<Rightarrow> send_outcome \<Rightarrow> wait_event list \<Rightarrow> bridge
     \<Rightarrow> (cmd_exn + json) \<times> bridge" where
  "send_command T request_id action params send_out evs st =
     (case issue_command request_id action params send_out st of
        (Inl e, st1) \<Rightarrow> (Inl e, st1)
      | (Inr future, st1) \<Rightarrow> finish_command request_id (wait_for T future evs st1))"

text \<open>Every future held in a pending slot has been created.\<close>

definition slots_created :: "bridge \<Rightarrow> bool" where
  "slots_created st = list_all (\<lambda>kv. snd kv < length (futures st)) (pending_requests st)"

section \<open>Definitions used in the statements\<close>

text \<open>
  The metadata items that \<open>to_text_output\<close> shows, and the lines of the summary in their
  order.
\<close>

definition shown_items :: "(string \<times> pyany) list \<Rightarrow> (string \<times> pyany) list" where
  "shown_items md = filter (\<lambda>kv. truthy (snd kv) \<and> fst kv \<noteq> ''version_info'') md"

definition summary_lines :: "ExecutionResult \<Rightarrow> string list" where
  "summary_lines r =
     map (\<lambda>kv. metadata_line (fst kv) (snd kv)) (shown_items (metadata r))
     @ [time_line r, code_line r]
     @ (if success r then [] else [error_line r])
     @ (if stdout r = [] then [] else [stdout_block r])
     @ (if stderr r = [] then [] else [stderr_block r])"

text \<open>
  The lines of the summary as the specification words them: one line for every metadata
  entry except the key \<open>version_info\<close>, then the same five parts.
\<close>

definition summary_lines_spec :: "ExecutionResult \<Rightarrow> string list" where
  "summary_lines_spec r =
     map (\<lambda>kv. metadata_line (fst kv) (snd kv))
         (filter (\<lambda>kv. fst kv \<noteq> ''version_info'') (metadata r))
     @ [time_line r, code_line r]
     @ (if success r then [] else [error_line r])
     @ (if stdout r = [] then [] else [stdout_block r])
     @ (if stderr r = [] then [] else [stderr_block r])"

text \<open>
  The names of the tools in a \<open>tools/list\<close> result, read from its key \<open>tools\<close>.
\<close>

definition listed_names :: "(string \<times> json) list \<Rightarrow> string list" where
  "listed_names result =
     (case dict_get result ''tools'' of
        Some (JList ts) \<Rightarrow> map (\<lambda>j. case j of JObj tool \<Rightarrow> tool_name_of tool | _ \<Rightarrow> []) ts
      | _ \<Rightarrow> [])"

text \<open>
  The state of the bridge right after \<open>send_command\<close> has installed its slot and sent its
  frame, and the invariant of that slot while the call waits: the future \<open>f\<close> exists, no
  other identifier holds it, and once it is no longer pending the slot is gone.
\<close>

definition installed :: "string \<Rightarrow> string \<Rightarrow> json \<Rightarrow> bridge \<Rightarrow> bridge" where
  "installed rid action params st = snd (issue_command rid action params SendReturns st)"

definition slot_inv :: "string \<Rightarrow> fut \<Rightarrow> bridge \<Rightarrow> bool" where
  "slot_inv rid f st =
     (f < length (futures st)
      \<and> (\<forall>kv\<in>set (pending_requests st). snd kv = f \<longrightarrow> fst kv = rid)
      \<and> (futures st ! f \<noteq> FPending \<longrightarrow> rid \<notin> set (dict_keys (pending_requests st))))"

text \<open>An event that is a response frame for the identifier \<open>rid\<close>.\<close>

definition replies_to :: "string \<Rightarrow> event \<Rightarrow> bool" where
  "replies_to rid ev =
     (case ev of
        Message (Response r) \<Rightarrow> reply_request_id r = Some rid
      | _ \<Rightarrow> False)"

text \<open>Something that happens during a wait and is neither a reply to \<open>rid\<close> nor a cancellation.\<close>

definition passes_by :: "string \<Rightarrow> wait_event \<Rightarrow> bool" where
  "passes_by rid wev =
     (case wev of
        Happens ev \<Rightarrow> \<not> replies_to rid ev
      | CancelTask \<Rightarrow> False)"

text \<open>
  The events that leave the connections alone: a message is handled, a transport is
  accepted. \<open>run_events\<close> takes the bridge through a list of events.
\<close>

definition quiet :: "event \<Rightarrow> bool" where
  "quiet ev = (case ev of Message m \<Rightarrow> True | Accept ws \<Rightarrow> True | _ \<Rightarrow> False)"

definition run_events :: "string \<Rightarrow> event list \<Rightarrow> bridge \<Rightarrow> bridge" where
  "run_events T evs st = fold (env_step T) evs st"

section \<open>Concrete inputs\<close>

definition ok_result :: ExecutionResult where
  "ok_result =
     \<lparr>success = True, stdout = ''ok'', stderr = [], returncode = 0,
      execution_time = ''0.000s'', metadata = [], error_type = [], error_message = []\<rparr>"

text \<open>A listing that found nothing, with the metadata \<open>{"count": 0}\<close>.\<close>

definition empty_listing :: ExecutionResult where
  "empty_listing =
     \<lparr>success = True, stdout = ''No messages'', stderr = [], returncode = 0,
      execution_time = ''0.000s'', metadata = [(''count'', PInt 0)],
      error_type = [], error_message = []\<rparr>"

definition failed_run :: ExecutionResult where
  "failed_run =
     \<lparr>success = False, stdout = [], stderr = ''boom'', returncode = 1,
      execution_time = ''0.120s'',
      metadata = [(''db_path'', PStr ''x.db''), (''version_info'', PStr ''3.12'')],
      error_type = ''TimeoutError'', error_message = ''late''\<rparr>"

definition timeout_result :: ExecutionResult where
  "timeout_result =
     \<lparr>success = False, stdout = [], stderr = [], returncode = 0,
      execution_time = ''2.000s'', metadata = [], error_type = ''TimeoutError'',
      error_message = ''no reply''\<rparr>"

text \<open>A handler that reports which call it received.\<close>

definition probe_handler :: "call \<Rightarrow> raised + ExecutionResult" where
  "probe_handler c =
     (case c of
        CallArgs a \<Rightarrow> Inr (ok_result\<lparr>stdout := ''args only''\<rparr>)
      | CallArgsRequest a rq \<Rightarrow> Inr (ok_result\<lparr>stdout := ''args and request''\<rparr>))"

definition mail_tools :: registry where
  "mail_tools =
     register ''gmail_list'' ''list mail'' (JObj []) [''args'', ''request''] probe_handler []"

definition probe_tools :: registry where
  "probe_tools =
     register ''web_get_url'' ''current url'' (JObj []) [''args''] probe_handler mail_tools"

definition two_tools :: registry where
  "two_tools =
     register ''execute_python'' ''run code'' (JObj []) [''args''] (\<lambda>c. Inr ok_result)
       (register ''web_click'' ''click'' (JObj []) [''args''] (\<lambda>c. Inr ok_result) [])"

definition url_tools :: registry where
  "url_tools =
     register ''web_get_url'' ''current url'' (JObj []) [''args''] (\<lambda>c. Inr timeout_result) []"

definition one_key :: api_keys where
  "one_key = [(''T'', \<lparr>tools = Some [''*''], exclude_tools = None, gmail_account = None\<rparr>)]"

definition plain_request :: request where
  "plain_request =
     \<lparr>authorization = None, url_path = ''/mcp'', json_body = None,
      state_allowed_tools = None, state_excluded_tools = None, state_api_key = None\<rparr>"

definition click_body :: rpc_body where
  "click_body = \<lparr>rpc_id = JInt 1, rpc_method = Some ''tools/call'',
                  rpc_tool_name = ''web_click'', rpc_arguments = JObj []\<rparr>"

definition list_body :: rpc_body where
  "list_body = \<lparr>rpc_id = JInt 2, rpc_method = Some ''tools/list'',
                 rpc_tool_name = [], rpc_arguments = JObj []\<rparr>"

text \<open>
  A token with \<open>tools = ["*"]\<close> and \<open>exclude_tools = ["web_*"]\<close>, and two requests that
  present it: one lists the tools, one calls \<open>web_click\<close>.
\<close>

definition web_key :: api_keys where
  "web_key = [(''T2'', \<lparr>tools = Some [''*''], exclude_tools = Some [''web_*''],
                        gmail_account = None\<rparr>)]"

definition web_list_call :: request where
  "web_list_call =
     \<lparr>authorization = Some ''Bearer T2'', url_path = ''/mcp'', json_body = Some list_body,
      state_allowed_tools = None, state_excluded_tools = None, state_api_key = None\<rparr>"

definition web_click_call :: request where
  "web_click_call = web_list_call\<lparr>json_body := Some click_body\<rparr>"

definition verified :: "request \<Rightarrow> request" where
  "verified rq = rq\<lparr>state_allowed_tools := Some [''*''], state_excluded_tools := Some [''web_*''],
                       state_api_key := Some ''T2''\<rparr>"

definition url_body :: rpc_body where
  "url_body = \<lparr>rpc_id = JInt 7, rpc_method = Some ''tools/call'',
                rpc_tool_name = ''web_get_url'', rpc_arguments = JObj []\<rparr>"

definition url_call :: request where
  "url_call =
     \<lparr>authorization = Some ''Bearer T'', url_path = ''/mcp'', json_body = Some url_body,
      state_allowed_tools = None, state_excluded_tools = None, state_api_key = None\<rparr>"

definition no_header_call :: request where
  "no_header_call = url_call\<lparr>authorization := None\<rparr>"

definition agent_auth :: "string \<Rightarrow> auth_input" where
  "agent_auth cid =
     AuthFrame \<lparr>auth_type = Some ''auth'', auth_token = Some ''secret'',
                auth_client_id = Some cid, auth_user_agent = Some ''agent'',
                auth_timestamp = Some ''now''\<rparr>"

text \<open>
  Agent 1 connected; then with one command in flight; then the handshake of agent 2 on
  that state.
\<close>

definition a1_connected :: bridge where
  "a1_connected = snd (handshake ''secret'' 1 (agent_auth ''A1'') True (accept 1 initial_bridge))"

definition a1_in_flight :: bridge where
  "a1_in_flight = snd (issue_command ''r1'' ''get_url'' (JObj []) SendReturns a1_connected)"

definition a2_handshake :: "bool \<times> bridge" where
  "a2_handshake = handshake ''secret'' 2 (agent_auth ''A2'') True (accept 2 a1_in_flight)"

section \<open>Properties of the dict operations\<close>

lemma dict_get_dict_set: "dict_get (dict_set k v d) k' = (if k' = k then Some v else dict_get d k')"
  by (induction d) (auto simp: dict_get_def)

lemma dict_keys_dict_set:
  "dict_keys (dict_set k v d) = (if k \<in> set (dict_keys d) then dict_keys d else dict_keys d @ [k])"
proof (induction d)
  case Nil
  show ?case by (simp add: dict_keys_def)
next
  case (Cons a d)
  obtain k' v' where a: "a = (k', v')" by (cases a)
  show ?case
  proof (cases "k' = k")
    case True
    then show ?thesis using a by (simp add: dict_keys_def)
  next
    case False
    then show ?thesis using a Cons by (simp add: dict_keys_def)
  qed
qed

lemma set_dict_set: "set (dict_set k v d) \<subseteq> insert (k, v) (set d)"
  by (induction d) (auto split: if_splits)

lemma dict_pop_keys: "k \<notin> set (dict_keys (dict_pop k d))"
  by (auto simp: dict_keys_def dict_pop_def)

lemma dict_pop_subset: "set (dict_pop k d) \<subseteq> set d"
  by (auto simp: dict_pop_def)

lemma dict_keys_pop: "set (dict_keys (dict_pop k d)) = set (dict_keys d) - {k}"
  by (auto simp: dict_keys_def dict_pop_def)

lemma dict_get_mem: "dict_get d k = Some v \<Longrightarrow> (k, v) \<in> set d"
  by (simp add: dict_get_def map_of_SomeD)

lemma dict_get_dict_pop: "k' \<noteq> k \<Longrightarrow> dict_get (dict_pop k d) k' = dict_get d k'"
  by (induction d) (auto simp: dict_get_def dict_pop_def)

section \<open>The rendered summary and the response envelope\<close>

lemma metadata_loop_filter:
  "metadata_loop items acc = acc @ map (\<lambda>kv. metadata_line (fst kv) (snd kv)) (shown_items items)"
  by (induction items acc rule: metadata_loop.induct) (simp_all add: shown_items_def)

text \<open>
  C8, as the code has it: the summary is the lines below joined by newlines, in this
  order: one line for every metadata entry whose value is truthy and whose key is not
  \<open>version_info\<close>, the Execution Time line, the Return Code line, the Error line exactly
  when \<open>success\<close> is false, the Standard Output block exactly when \<open>stdout\<close> is not empty,
  the Standard Error block exactly when \<open>stderr\<close> is not empty.
\<close>

theorem to_text_output_summary: "to_text_output r = join NL (summary_lines r)"
  by (simp add: to_text_output_def summary_lines_def metadata_loop_filter Let_def)

text \<open>The summary of a failed run with a \<open>version_info\<close> entry.\<close>

theorem to_text_output_summary_witness:
  "to_text_output failed_run =
     EMOJI_FOLDER @ '' Db Path: x.db'' @ NL
     @ EMOJI_TIMER @ '' Execution Time: 0.120s'' @ NL
     @ EMOJI_NUMBERS @ '' Return Code: 1'' @ NL
     @ EMOJI_CROSS @ '' Error: [TimeoutError] late'' @ NL
     @ EMOJI_WARNING @ '' Standard Error:'' @ NL @ ''boom''"
  by (subst to_text_output_summary) code_simp

text \<open>
  C8 as stated fails: the entry \<open>count = 0\<close> is not \<open>version_info\<close>, and it has no line in
  the summary.
\<close>

theorem summary_spec_counterexample:
  "to_text_output empty_listing \<noteq> join NL (summary_lines_spec empty_listing)"
  by code_simp

text \<open>
  C10: the envelope built by \<open>format_tool_result\<close> has the keys \<open>content\<close> and \<open>isError\<close>,
  and the key \<open>metadata\<close> exactly when the metadata of the result is not empty.
\<close>

theorem format_tool_result_keys:
  "dict_keys (format_tool_result r) =
     (if metadata r = [] then [''content'', ''isError'']
      else [''content'', ''isError'', ''metadata''])"
  by (simp add: format_tool_result_def dict_keys_def Let_def)

theorem format_tool_result_keys_witness:
  "dict_keys (format_tool_result empty_listing) = [''content'', ''isError'', ''metadata'']
   \<and> dict_keys (format_tool_result (empty_listing\<lparr>metadata := []\<rparr>)) = [''content'', ''isError'']"
  using format_tool_result_keys [of empty_listing]
        format_tool_result_keys [of "empty_listing\<lparr>metadata := []\<rparr>"]
  by (simp add: empty_listing_def)

section \<open>Authorization of tools\<close>

lemma is_tool_allowed_iff:
  "is_tool_allowed fnm request t =
     (\<not> (\<exists>p\<in>set (get_excluded_tools request). fnm t p)
      \<and> (''*'' \<in> set (get_allowed_tools request)
          \<or> (\<exists>p\<in>set (get_allowed_tools request). fnm t p)))"
  by (auto simp: is_tool_allowed_def Let_def list_ex_iff)

lemma filter_allowed_tools_eq:
  "filter_allowed_tools fnm request all_tools =
     filter (\<lambda>tool. is_tool_allowed fnm request (tool_name_of tool)) all_tools"
  unfolding filter_allowed_tools_def Let_def
  by (rule filter_cong) (auto simp: is_tool_allowed_iff list_ex_iff)

text \<open>Every entry of \<open>list_tools\<close> has its name as a string.\<close>

lemma tool_name_of_list_tools:
  "map tool_name_of (list_tools tools_dict) = map (\<lambda>kt. name (snd kt)) tools_dict"
  by (simp add: list_tools_def tool_name_of_def dict_get_def)

lemma handle_tools_list_eq:
  "handle_tools_list fnm tools_dict request =
     [(''tools'', JList (map JObj
        (filter (\<lambda>tool. is_tool_allowed fnm request (tool_name_of tool))
           (list_tools tools_dict))))]"
  by (simp add: handle_tools_list_def filter_allowed_tools_eq Let_def)

lemma listed_names_handle_tools_list:
  "listed_names (handle_tools_list fnm tools_dict request) =
     map tool_name_of (filter_allowed_tools fnm request (list_tools tools_dict))"
  by (simp add: listed_names_def handle_tools_list_def dict_get_def Let_def comp_def)

text \<open>
  C1: for every policy held by a request, every matcher and every tool name \<open>t\<close>: when an
  excluded pattern matches \<open>t\<close>, \<open>is_tool_allowed\<close> is false whatever the allowed patterns
  are; otherwise it is true exactly when \<open>*\<close> is an allowed pattern or an allowed pattern
  matches \<open>t\<close>. The result of \<open>_handle_tools_list\<close>, which is what the branch
  \<open>tools/list\<close> of the endpoint returns, holds exactly the tools of the catalog for
  which \<open>is_tool_allowed\<close> holds, so an excluded name is in no \<open>tools/list\<close> output; and
  \<open>tools/call\<close> on an excluded name raises the permission error, both in
  \<open>_handle_tools_call\<close> and through the branch on the method.
\<close>

theorem exclusion_before_inclusion:
  "(is_tool_allowed fnm request t =
      (if \<exists>p\<in>set (get_excluded_tools request). fnm t p then False
       else ''*'' \<in> set (get_allowed_tools request)
            \<or> (\<exists>p\<in>set (get_allowed_tools request). fnm t p)))
   \<and> filter_allowed_tools fnm request all_tools =
       filter (\<lambda>tool. is_tool_allowed fnm request (tool_name_of tool)) all_tools
   \<and> handle_tools_list fnm tools_dict request =
       [(''tools'', JList (map JObj
          (filter (\<lambda>tool. is_tool_allowed fnm request (tool_name_of tool))
             (list_tools tools_dict))))]
   \<and> (rpc_method lbody = Some ''tools/list'' \<longrightarrow>
        dispatch fnm tools_dict lbody request = Inr (handle_tools_list fnm tools_dict request))
   \<and> ((\<exists>p\<in>set (get_excluded_tools request). fnm t p) \<longrightarrow>
        \<not> is_tool_allowed fnm request t
        \<and> t \<notin> set (map tool_name_of (filter_allowed_tools fnm request (list_tools tools_dict)))
        \<and> t \<notin> set (listed_names (handle_tools_list fnm tools_dict request))
        \<and> (rpc_method lbody = Some ''tools/list'' \<longrightarrow>
             (\<exists>res. dispatch fnm tools_dict lbody request = Inr res
                    \<and> t \<notin> set (listed_names res)))
        \<and> (verify_api_key API_KEYS req = Inr (allowed, request)
             \<and> json_body request = Some lbody \<and> rpc_method lbody = Some ''tools/list'' \<longrightarrow>
             (\<exists>res. post_mcp fnm API_KEYS tools_dict req =
                      \<lparr>status_code = 200,
                       content = JObj [(''jsonrpc'', JStr ''2.0''), (''id'', rpc_id lbody),
                                       (''result'', JObj res)],
                       headers = []\<rparr>
                    \<and> t \<notin> set (listed_names res)))
        \<and> (rpc_tool_name body = t \<longrightarrow>
             handle_tools_call fnm tools_dict body request = Inl (permission_denied t))
        \<and> (rpc_tool_name body = t \<and> rpc_method body = Some ''tools/call'' \<longrightarrow>
             dispatch fnm tools_dict body request = Inl (permission_denied t))
        \<and> (verify_api_key API_KEYS req = Inr (allowed, request)
             \<and> json_body request = Some body \<and> rpc_tool_name body = t
             \<and> rpc_method body = Some ''tools/call'' \<longrightarrow>
             post_mcp fnm API_KEYS tools_dict req =
               \<lparr>status_code = 200,
                content = error_envelope (rpc_id body) (permission_denied t),
                headers = []\<rparr>))"
proof -
  have a: "is_tool_allowed fnm request t =
      (if \<exists>p\<in>set (get_excluded_tools request). fnm t p then False
       else ''*'' \<in> set (get_allowed_tools request)
            \<or> (\<exists>p\<in>set (get_allowed_tools request). fnm t p))"
    by (simp add: is_tool_allowed_iff)
  have b: "filter_allowed_tools fnm request all_tools =
       filter (\<lambda>tool. is_tool_allowed fnm request (tool_name_of tool)) all_tools"
    by (rule filter_allowed_tools_eq)
  have b2: "handle_tools_list fnm tools_dict request =
       [(''tools'', JList (map JObj
          (filter (\<lambda>tool. is_tool_allowed fnm request (tool_name_of tool))
             (list_tools tools_dict))))]"
    by (rule handle_tools_list_eq)
  have b3: "rpc_method lbody = Some ''tools/list'' \<longrightarrow>
        dispatch fnm tools_dict lbody request = Inr (handle_tools_list fnm tools_dict request)"
    by (simp add: dispatch_def Let_def)
  have c: "(\<exists>p\<in>set (get_excluded_tools request). fnm t p) \<longrightarrow>
        \<not> is_tool_allowed fnm request t
        \<and> t \<notin> set (map tool_name_of (filter_allowed_tools fnm request (list_tools tools_dict)))
        \<and> t \<notin> set (listed_names (handle_tools_list fnm tools_dict request))
        \<and> (rpc_method lbody = Some ''tools/list'' \<longrightarrow>
             (\<exists>res. dispatch fnm tools_dict lbody request = Inr res
                    \<and> t \<notin> set (listed_names res)))
        \<and> (verify_api_key API_KEYS req = Inr (allowed, request)
             \<and> json_body request = Some lbody \<and> rpc_method lbody = Some ''tools/list'' \<longrightarrow>
             (\<exists>res. post_mcp fnm API_KEYS tools_dict req =
                      \<lparr>status_code = 200,
                       content = JObj [(''jsonrpc'', JStr ''2.0''), (''id'', rpc_id lbody),
                                       (''result'', JObj res)],
                       headers = []\<rparr>
                    \<and> t \<notin> set (listed_names res)))
        \<and> (rpc_tool_name body = t \<longrightarrow>
             handle_tools_call fnm tools_dict body request = Inl (permission_denied t))
        \<and> (rpc_tool_name body = t \<and> rpc_method body = Some ''tools/call'' \<longrightarrow>
             dispatch fnm tools_dict body request = Inl (permission_denied t))
        \<and> (verify_api_key API_KEYS req = Inr (allowed, request)
             \<and> json_body request = Some body \<and> rpc_tool_name body = t
             \<and> rpc_method body = Some ''tools/call'' \<longrightarrow>
             post_mcp fnm API_KEYS tools_dict req =
               \<lparr>status_code = 200,
                content = error_envelope (rpc_id body) (permission_denied t),
                headers = []\<rparr>)"
  proof
    assume ex: "\<exists>p\<in>set (get_excluded_tools request). fnm t p"
    then have n: "\<not> is_tool_allowed fnm request t" by (simp add: is_tool_allowed_iff)
    have l: "t \<notin> set (map tool_name_of (filter_allowed_tools fnm request (list_tools tools_dict)))"
      using n by (auto simp: filter_allowed_tools_eq)
    have l2: "t \<notin> set (listed_names (handle_tools_list fnm tools_dict request))"
      using l unfolding listed_names_handle_tools_list .
    have l3: "rpc_method lbody = Some ''tools/list'' \<longrightarrow>
             (\<exists>res. dispatch fnm tools_dict lbody request = Inr res
                    \<and> t \<notin> set (listed_names res))"
      using b3 l2 by blast
    have l4: "verify_api_key API_KEYS req = Inr (allowed, request)
             \<and> json_body request = Some lbody \<and> rpc_method lbody = Some ''tools/list'' \<longrightarrow>
             (\<exists>res. post_mcp fnm API_KEYS tools_dict req =
                      \<lparr>status_code = 200,
                       content = JObj [(''jsonrpc'', JStr ''2.0''), (''id'', rpc_id lbody),
                                       (''result'', JObj res)],
                       headers = []\<rparr>
                    \<and> t \<notin> set (listed_names res))"
    proof
      assume v: "verify_api_key API_KEYS req = Inr (allowed, request)
             \<and> json_body request = Some lbody \<and> rpc_method lbody = Some ''tools/list''"
      then have dl: "dispatch fnm tools_dict lbody request
                       = Inr (handle_tools_list fnm tools_dict request)"
        using b3 by blast
      have "post_mcp fnm API_KEYS tools_dict req =
                      \<lparr>status_code = 200,
                       content = JObj [(''jsonrpc'', JStr ''2.0''), (''id'', rpc_id lbody),
                                       (''result'', JObj (handle_tools_list fnm tools_dict request))],
                       headers = []\<rparr>"
        using v dl by (simp add: post_mcp_def mcp_endpoint_def Let_def)
      then show "\<exists>res. post_mcp fnm API_KEYS tools_dict req =
                      \<lparr>status_code = 200,
                       content = JObj [(''jsonrpc'', JStr ''2.0''), (''id'', rpc_id lbody),
                                       (''result'', JObj res)],
                       headers = []\<rparr>
                    \<and> t \<notin> set (listed_names res)"
        using l2 by blast
    qed
    have h: "rpc_tool_name body = t \<longrightarrow>
             handle_tools_call fnm tools_dict body request = Inl (permission_denied t)"
      using n by (simp add: handle_tools_call_def Let_def)
    have d: "rpc_tool_name body = t \<and> rpc_method body = Some ''tools/call'' \<longrightarrow>
             dispatch fnm tools_dict body request = Inl (permission_denied t)"
      using h by (simp add: dispatch_def Let_def)
    have d2: "verify_api_key API_KEYS req = Inr (allowed, request)
             \<and> json_body request = Some body \<and> rpc_tool_name body = t
             \<and> rpc_method body = Some ''tools/call'' \<longrightarrow>
             post_mcp fnm API_KEYS tools_dict req =
               \<lparr>status_code = 200,
                content = error_envelope (rpc_id body) (permission_denied t),
                headers = []\<rparr>"
    proof
      assume v: "verify_api_key API_KEYS req = Inr (allowed, request)
             \<and> json_body request = Some body \<and> rpc_tool_name body = t
             \<and> rpc_method body = Some ''tools/call''"
      then have "dispatch fnm tools_dict body request = Inl (permission_denied t)"
        using d by blast
      then show "post_mcp fnm API_KEYS tools_dict req =
               \<lparr>status_code = 200,
                content = error_envelope (rpc_id body) (permission_denied t),
                headers = []\<rparr>"
        using v by (simp add: post_mcp_def mcp_endpoint_def Let_def)
    qed
    show "\<not> is_tool_allowed fnm request t
        \<and> t \<notin> set (map tool_name_of (filter_allowed_tools fnm request (list_tools tools_dict)))
        \<and> t \<notin> set (listed_names (handle_tools_list fnm tools_dict request))
        \<and> (rpc_method lbody = Some ''tools/list'' \<longrightarrow>
             (\<exists>res. dispatch fnm tools_dict lbody request = Inr res
                    \<and> t \<notin> set (listed_names res)))
        \<and> (verify_api_key API_KEYS req = Inr (allowed, request)
             \<and> json_body request = Some lbody \<and> rpc_method lbody = Some ''tools/list'' \<longrightarrow>
             (\<exists>res. post_mcp fnm API_KEYS tools_dict req =
                      \<lparr>status_code = 200,
                       content = JObj [(''jsonrpc'', JStr ''2.0''), (''id'', rpc_id lbody),
                                       (''result'', JObj res)],
                       headers = []\<rparr>
                    \<and> t \<notin> set (listed_names res)))
        \<and> (rpc_tool_name body = t \<longrightarrow>
             handle_tools_call fnm tools_dict body request = Inl (permission_denied t))
        \<and> (rpc_tool_name body = t \<and> rpc_method body = Some ''tools/call'' \<longrightarrow>
             dispatch fnm tools_dict body request = Inl (permission_denied t))
        \<and> (verify_api_key API_KEYS req = Inr (allowed, request)
             \<and> json_body request = Some body \<and> rpc_tool_name body = t
             \<and> rpc_method body = Some ''tools/call'' \<longrightarrow>
             post_mcp fnm API_KEYS tools_dict req =
               \<lparr>status_code = 200,
                content = error_envelope (rpc_id body) (permission_denied t),
                headers = []\<rparr>)"
      using n l l2 l3 l4 h d d2 by blast
  qed
  show ?thesis using a b b2 b3 c by blast
qed

lemma split_Bearer_T2: "str_split ''Bearer T2'' = [''Bearer'', ''T2'']"
  by code_simp

lemma lower_Bearer_scheme: "lower ''Bearer'' = ''bearer''"
  by code_simp

lemma web_calls_verified:
  "verify_api_key web_key web_list_call = Inr ([''*''], verified web_list_call)
   \<and> verify_api_key web_key web_click_call = Inr ([''*''], verified web_click_call)"
  by (simp add: verify_api_key_def web_key_def web_list_call_def web_click_call_def verified_def
      split_Bearer_T2 lower_Bearer_scheme dict_get_def opt_list_def Let_def)

lemma verified_policy:
  "get_excluded_tools (verified rq) = [''web_*''] \<and> get_allowed_tools (verified rq) = [''*'']"
  by (simp add: verified_def get_excluded_tools_def get_allowed_tools_def)

lemma verified_listing:
  "listed_names (handle_tools_list glob_match two_tools (verified rq)) = [''execute_python'']"
  by (simp add: listed_names_handle_tools_list filter_allowed_tools_eq is_tool_allowed_def
      verified_policy two_tools_def register_def list_tools_def tool_name_of_def dict_get_def)

text \<open>
  With \<open>tools = ["*"]\<close> and \<open>exclude_tools = ["web_*"]\<close> on the catalog of \<open>web_click\<close>
  and \<open>execute_python\<close>: \<open>web_click\<close> is denied, the response to \<open>tools/list\<close> lists
  \<open>execute_python\<close> alone, the response to \<open>tools/call\<close> of \<open>web_click\<close> is the permission
  error, and \<open>execute_python\<close> is allowed.
\<close>

theorem exclusion_before_inclusion_witness:
  "(\<exists>p\<in>set (get_excluded_tools (verified web_list_call)). glob_match ''web_click'' p)
   \<and> ''*'' \<in> set (get_allowed_tools (verified web_list_call))
   \<and> \<not> is_tool_allowed glob_match (verified web_list_call) ''web_click''
   \<and> ''web_click'' \<notin> set (listed_names
         (handle_tools_list glob_match two_tools (verified web_list_call)))
   \<and> listed_names (handle_tools_list glob_match two_tools (verified web_list_call))
       = [''execute_python'']
   \<and> post_mcp glob_match web_key two_tools web_list_call =
       \<lparr>status_code = 200,
        content = JObj [(''jsonrpc'', JStr ''2.0''), (''id'', JInt 2),
                        (''result'', JObj (handle_tools_list glob_match two_tools
                                             (verified web_list_call)))],
        headers = []\<rparr>
   \<and> is_tool_allowed glob_match (verified web_list_call) ''execute_python''"
proof -
  have e: "\<exists>p\<in>set (get_excluded_tools (verified web_list_call)). glob_match ''web_click'' p"
    by (simp add: verified_policy)
  have v: "verify_api_key web_key web_list_call = Inr ([''*''], verified web_list_call)"
    using web_calls_verified by simp
  have b: "json_body (verified web_list_call) = Some list_body"
    by (simp add: verified_def web_list_call_def)
  have lm: "rpc_method list_body = Some ''tools/list''" by (simp add: list_body_def)
  have i: "rpc_id list_body = JInt 2" by (simp add: list_body_def)
  have py: "is_tool_allowed glob_match (verified web_list_call) ''execute_python''"
    by (simp add: is_tool_allowed_def verified_policy)
  have s: "''*'' \<in> set (get_allowed_tools (verified web_list_call))"
    by (simp add: verified_policy)
  have d: "dispatch glob_match two_tools list_body (verified web_list_call)
             = Inr (handle_tools_list glob_match two_tools (verified web_list_call))"
    by (simp add: dispatch_def lm)
  have p: "post_mcp glob_match web_key two_tools web_list_call =
       \<lparr>status_code = 200,
        content = JObj [(''jsonrpc'', JStr ''2.0''), (''id'', JInt 2),
                        (''result'', JObj (handle_tools_list glob_match two_tools
                                             (verified web_list_call)))],
        headers = []\<rparr>"
    using v b d i by (simp add: post_mcp_def mcp_endpoint_def Let_def)
  show ?thesis
    using exclusion_before_inclusion [of glob_match "verified web_list_call" "''web_click''"
        "[]" two_tools list_body web_key web_list_call "[''*'']" click_body]
      e v b lm py s p verified_listing
    by blast
qed

text \<open>The call of the excluded tool, through the endpoint.\<close>

lemma excluded_call_response:
  "post_mcp glob_match web_key two_tools web_click_call =
     \<lparr>status_code = 200,
      content = error_envelope (JInt 1) (permission_denied ''web_click''),
      headers = []\<rparr>"
proof -
  have v: "verify_api_key web_key web_click_call = Inr ([''*''], verified web_click_call)"
    using web_calls_verified by simp
  have b: "json_body (verified web_click_call) = Some click_body"
    by (simp add: verified_def web_click_call_def)
  have n: "\<not> is_tool_allowed glob_match (verified web_click_call) ''web_click''"
    by (simp add: is_tool_allowed_def verified_policy)
  have d: "dispatch glob_match two_tools click_body (verified web_click_call)
             = Inl (permission_denied ''web_click'')"
    using n by (simp add: dispatch_def handle_tools_call_def click_body_def Let_def)
  show ?thesis
    using v b d by (simp add: post_mcp_def mcp_endpoint_def click_body_def Let_def)
qed

section \<open>The registry\<close>

text \<open>
  C6: for every call of \<open>execute\<close> with a request: when no tool has the name it raises
  \<open>MCPError\<close> with code -32601; otherwise it calls the registered handler, with the
  request as an extra argument exactly when the handler declares a parameter named
  \<open>request\<close>, and with the arguments alone otherwise.
\<close>

theorem execute_dispatch:
  "(dict_get tools_dict nm = None \<longrightarrow>
      execute tools_dict nm args (Some rq) =
        Inl (MCPError (- 32601) (''Tool not found: '' @ nm) None))
   \<and> (\<forall>tool. dict_get tools_dict nm = Some tool \<longrightarrow>
         execute tools_dict nm args (Some rq) =
           handler tool (if ''request'' \<in> set (handler_params tool)
                         then CallArgsRequest args rq else CallArgs args))"
  by (simp add: execute_def handler_call_def)

lemma mail_tools_get:
  "dict_get mail_tools ''gmail_list'' =
     Some \<lparr>name = ''gmail_list'', description = ''list mail'', input_schema = JObj [],
           handler_params = [''args'', ''request''], handler = probe_handler\<rparr>"
  by (simp add: mail_tools_def register_def dict_get_def)

lemma probe_tools_get:
  "dict_get probe_tools ''gmail_send'' = None
   \<and> dict_get probe_tools ''gmail_list'' =
       Some \<lparr>name = ''gmail_list'', description = ''list mail'', input_schema = JObj [],
             handler_params = [''args'', ''request''], handler = probe_handler\<rparr>
   \<and> dict_get probe_tools ''web_get_url'' =
       Some \<lparr>name = ''web_get_url'', description = ''current url'', input_schema = JObj [],
             handler_params = [''args''], handler = probe_handler\<rparr>"
  by (simp add: probe_tools_def mail_tools_def register_def dict_get_def)

text \<open>
  An unknown name, a handler that declares \<open>request\<close> and a handler that does not, each
  called with a request.
\<close>

theorem execute_dispatch_witness:
  "dict_get probe_tools ''gmail_send'' = None
   \<and> execute probe_tools ''gmail_send'' (JObj []) (Some plain_request)
       = Inl (MCPError (- 32601) ''Tool not found: gmail_send'' None)
   \<and> execute probe_tools ''gmail_list'' (JObj []) (Some plain_request)
       = Inr (ok_result\<lparr>stdout := ''args and request''\<rparr>)
   \<and> execute probe_tools ''web_get_url'' (JObj []) (Some plain_request)
       = Inr (ok_result\<lparr>stdout := ''args only''\<rparr>)"
  using execute_dispatch [of probe_tools "''gmail_send''" "JObj []" plain_request]
        execute_dispatch [of probe_tools "''gmail_list''" "JObj []" plain_request]
        execute_dispatch [of probe_tools "''web_get_url''" "JObj []" plain_request]
        probe_tools_get
  by (simp add: probe_handler_def)

text \<open>
  \<open>execute\<close> can also be called without a request (its parameter defaults to \<open>None\<close>);
  the endpoint never does so. Then the handler is called with the arguments alone.
\<close>

lemma execute_without_request:
  "execute tools_dict nm args None =
     (case dict_get tools_dict nm of
        None \<Rightarrow> Inl (MCPError (- 32601) (''Tool not found: '' @ nm) None)
      | Some tool \<Rightarrow> handler tool (CallArgs args))"
  by (simp add: execute_def handler_call_def split: option.splits)

text \<open>
  C7, as the code has it: a registration under a name always succeeds; afterwards the
  name holds the definition just given, whether or not the name was registered before,
  every other name holds what it held, and a name registered before keeps its place in
  the catalog.
\<close>

theorem register_replaces:
  "dict_get (register nm descr schema params h tools_dict) nm =
      Some \<lparr>name = nm, description = descr, input_schema = schema,
            handler_params = params, handler = h\<rparr>
   \<and> (\<forall>k. k \<noteq> nm \<longrightarrow>
         dict_get (register nm descr schema params h tools_dict) k = dict_get tools_dict k)
   \<and> dict_keys (register nm descr schema params h tools_dict) =
       (if nm \<in> set (dict_keys tools_dict) then dict_keys tools_dict
        else dict_keys tools_dict @ [nm])"
  by (simp add: register_def dict_get_dict_set dict_keys_dict_set)

theorem register_replaces_witness:
  "map_option description
     (dict_get (register ''gmail_list'' ''second'' (JObj []) [''args''] probe_handler mail_tools)
        ''gmail_list'')
     = Some ''second''
   \<and> dict_keys (register ''gmail_list'' ''second'' (JObj []) [''args''] probe_handler mail_tools)
     = [''gmail_list'']"
proof -
  have k: "dict_keys mail_tools = [''gmail_list'']"
    by (simp add: mail_tools_def register_def dict_keys_def)
  show ?thesis
    using register_replaces [of "''gmail_list''" "''second''" "JObj []" "[''args'']"
        probe_handler mail_tools] k
    by simp
qed

text \<open>
  C7 as stated fails: a second registration of \<open>gmail_list\<close> returns a catalog, and in it
  the description of \<open>gmail_list\<close> is the second one.
\<close>

theorem register_duplicate_counterexample:
  "map_option description (dict_get mail_tools ''gmail_list'') = Some ''list mail''
   \<and> map_option description
       (dict_get (register ''gmail_list'' ''second'' (JObj []) [''args''] probe_handler mail_tools)
          ''gmail_list'')
     = Some ''second''"
  by (simp add: mail_tools_def register_def dict_get_def)

section \<open>The Authorizer and the endpoint\<close>

lemma split_aux_word:
  "\<forall>c\<in>set w. \<not> py_isspace c \<Longrightarrow> split_aux cur (w @ s) = split_aux (cur @ w) s"
  by (induction w arbitrary: cur) simp_all

lemma split_scheme_token:
  assumes "\<forall>c\<in>set scheme. \<not> py_isspace c" and "scheme \<noteq> []"
    and "\<forall>c\<in>set X. \<not> py_isspace c" and "X \<noteq> []"
  shows "str_split (scheme @ '' '' @ X) = [scheme, X]"
proof -
  have "str_split (scheme @ '' '' @ X) = split_aux scheme ('' '' @ X)"
    using split_aux_word [OF assms(1), of "[]"] by (simp add: str_split_def)
  also have "\<dots> = scheme # split_aux [] X"
    using assms(2) by (simp add: py_isspace_def)
  also have "split_aux [] X = split_aux X []"
    using split_aux_word [OF assms(3), of "[]" "[]"] by simp
  also have "\<dots> = [X]" using assms(4) by simp
  finally show ?thesis .
qed

lemma no_space_bearer: "\<forall>c\<in>set ''bearer''. \<not> py_isspace c"
  by (simp add: py_isspace_def)

lemma no_space_Token: "\<forall>c\<in>set ''Token''. \<not> py_isspace c"
  by (simp add: py_isspace_def)

lemma lower_bearer: "lower ''bearer'' = ''bearer''"
  by (simp add: lower_def lower_char_def)

lemma lower_Token: "lower ''Token'' \<noteq> ''bearer''"
  by code_simp

lemma split_Bearer_T: "str_split ''Bearer T'' = [''Bearer'', ''T'']"
  by code_simp

text \<open>
  C9: with a token table that is not empty and a token \<open>X\<close> (not empty, no whitespace),
  the header \<open>bearer X\<close> passes the test of the scheme and \<open>X\<close> is looked up in the
  table: an unknown \<open>X\<close> gives 403, a known one its allowed tools. The header \<open>Token X\<close>
  is rejected with 401.
\<close>

theorem lowercase_scheme_accepted:
  assumes "API_KEYS \<noteq> []" and "X \<noteq> []" and "\<forall>c\<in>set X. \<not> py_isspace c"
  shows "verify_api_key API_KEYS (request\<lparr>authorization := Some (''bearer '' @ X)\<rparr>) =
           (case dict_get API_KEYS X of
              None \<Rightarrow> Inl (HTTPException 403 ''Invalid API Key'' [])
            | Some cfg \<Rightarrow>
                Inr (opt_list (tools cfg),
                     request\<lparr>authorization := Some (''bearer '' @ X),
                             state_allowed_tools := Some (opt_list (tools cfg)),
                             state_excluded_tools := Some (opt_list (exclude_tools cfg)),
                             state_api_key := Some X\<rparr>))
         \<and> verify_api_key API_KEYS (request\<lparr>authorization := Some (''Token '' @ X)\<rparr>) =
             Inl (HTTPException 401 INVALID_FORMAT_DETAIL [(''WWW-Authenticate'', ''Bearer'')])"
proof -
  have b: "str_split (''bearer '' @ X) = [''bearer'', X]"
    using split_scheme_token [OF no_space_bearer _ assms(3) assms(2)] by simp
  have t: "str_split (''Token '' @ X) = [''Token'', X]"
    using split_scheme_token [OF no_space_Token _ assms(3) assms(2)] by simp
  have 1: "verify_api_key API_KEYS (request\<lparr>authorization := Some (''bearer '' @ X)\<rparr>) =
           (case dict_get API_KEYS X of
              None \<Rightarrow> Inl (HTTPException 403 ''Invalid API Key'' [])
            | Some cfg \<Rightarrow>
                Inr (opt_list (tools cfg),
                     request\<lparr>authorization := Some (''bearer '' @ X),
                             state_allowed_tools := Some (opt_list (tools cfg)),
                             state_excluded_tools := Some (opt_list (exclude_tools cfg)),
                             state_api_key := Some X\<rparr>))"
    using assms(1) b lower_bearer
    by (simp add: verify_api_key_def Let_def split: option.splits)
  have 2: "verify_api_key API_KEYS (request\<lparr>authorization := Some (''Token '' @ X)\<rparr>) =
             Inl (HTTPException 401 INVALID_FORMAT_DETAIL [(''WWW-Authenticate'', ''Bearer'')])"
    using assms(1) t lower_Token
    by (simp add: verify_api_key_def Let_def)
  show ?thesis using 1 2 by simp
qed

theorem lowercase_scheme_accepted_witness:
  "verify_api_key one_key (plain_request\<lparr>authorization := Some ''bearer T''\<rparr>) =
     Inr ([''*''], plain_request\<lparr>authorization := Some ''bearer T'',
                                 state_allowed_tools := Some [''*''],
                                 state_excluded_tools := Some [],
                                 state_api_key := Some ''T''\<rparr>)
   \<and> verify_api_key one_key (plain_request\<lparr>authorization := Some ''Token T''\<rparr>) =
       Inl (HTTPException 401 INVALID_FORMAT_DETAIL [(''WWW-Authenticate'', ''Bearer'')])"
proof -
  have k: "one_key \<noteq> []" by (simp add: one_key_def)
  have x: "''T'' \<noteq> []" by simp
  have s: "\<forall>c\<in>set ''T''. \<not> py_isspace c" by (simp add: py_isspace_def)
  show ?thesis
    using lowercase_scheme_accepted [OF k x s, of plain_request]
    by (simp add: one_key_def dict_get_def opt_list_def)
qed

text \<open>
  What \<open>verify_api_key\<close> does, case by case. With no token configured it succeeds with
  \<open>["*"]\<close>, and no mailbox is bound to the request.
\<close>

lemma verify_api_key_development:
  "verify_api_key [] request = Inr ([''*''], request\<lparr>state_allowed_tools := Some [''*'']\<rparr>)
   \<and> get_gmail_account [] request = None"
  by (simp add: verify_api_key_def get_gmail_account_def get_api_key_config_def dict_get_def Let_def)

text \<open>
  With tokens configured, a header that is missing, empty or not of the two-part Bearer
  shape raises 401 with the \<open>WWW-Authenticate\<close> header on the exception, and an unknown
  token raises 403.
\<close>

lemma verify_api_key_rejections:
  assumes "API_KEYS \<noteq> []"
  shows "(authorization request = None \<or> authorization request = Some [] \<longrightarrow>
            verify_api_key API_KEYS request =
              Inl (HTTPException 401 MISSING_HEADER_DETAIL [(''WWW-Authenticate'', ''Bearer'')]))
       \<and> (\<forall>h. authorization request = Some h \<and> h \<noteq> [] \<and>
               (length (str_split h) \<noteq> 2 \<or> lower (hd (str_split h)) \<noteq> ''bearer'') \<longrightarrow>
            verify_api_key API_KEYS request =
              Inl (HTTPException 401 INVALID_FORMAT_DETAIL [(''WWW-Authenticate'', ''Bearer'')]))
       \<and> (\<forall>h scheme token. authorization request = Some h \<and> str_split h = [scheme, token]
               \<and> lower scheme = ''bearer'' \<and> dict_get API_KEYS token = None \<longrightarrow>
            verify_api_key API_KEYS request = Inl (HTTPException 403 ''Invalid API Key'' []))"
  using assms
  apply (intro conjI allI impI)
    apply (auto simp: verify_api_key_def str_split_def Let_def split: option.splits list.splits)
  done

text \<open>
  The response that \<open>http_exception_handler\<close> builds has the status of the exception,
  the code -32000 for 401 and -32001 otherwise, and no header of the exception.
\<close>

lemma http_exception_handler_shape:
  "status_code (http_exception_handler request (HTTPException st detail hs)) = st
   \<and> headers (http_exception_handler request (HTTPException st detail hs)) = []
   \<and> json_get (content (http_exception_handler request (HTTPException st detail hs))) ''error''
       = Some (JObj [(''code'', JInt (if st = 401 then - 32000 else - 32001)),
                     (''message'', JStr detail), (''status_code'', JInt st)])"
  by (simp add: json_get_def dict_get_def)

text \<open>
  C3, at a request without \<open>Authorization\<close> header and one token configured:
  \<open>verify_api_key\<close> raises 401 and names the header \<open>WWW-Authenticate: Bearer\<close> on its
  exception; the response sent has the status 401 and the code -32000, and carries no
  \<open>WWW-Authenticate\<close> header.
\<close>

theorem missing_header_response:
  "verify_api_key one_key no_header_call =
     Inl (HTTPException 401 MISSING_HEADER_DETAIL [(''WWW-Authenticate'', ''Bearer'')])
   \<and> post_mcp glob_match one_key url_tools no_header_call =
     \<lparr>status_code = 401,
      content = JObj [(''jsonrpc'', JStr ''2.0''), (''id'', JNull),
                      (''error'', JObj [(''code'', JInt (- 32000)),
                                        (''message'', JStr MISSING_HEADER_DETAIL),
                                        (''status_code'', JInt 401)])],
      headers = []\<rparr>"
  by (simp add: verify_api_key_def one_key_def no_header_call_def url_call_def post_mcp_def
      mcp_endpoint_def)

text \<open>
  C2: when a \<open>tools/call\<close> request reaches a handler (the request is authorized, its body
  parses, the tool is allowed and registered) and the handler returns a result with
  \<open>success\<close> false, the response has status 200 and is the envelope with the key
  \<open>result\<close> and without the key \<open>error\<close>; in the result \<open>isError\<close> is true and \<open>content\<close>
  is a list of one text entry, the summary.
\<close>

theorem failed_result_is_not_rpc_error:
  assumes "verify_api_key API_KEYS req = Inr (allowed, req')"
    and "json_body req' = Some body"
    and "rpc_method body = Some ''tools/call''"
    and "is_tool_allowed fnm req' (rpc_tool_name body)"
    and "execute tools_dict (rpc_tool_name body) (rpc_arguments body) (Some req') = Inr r"
    and "\<not> success r"
  shows "post_mcp fnm API_KEYS tools_dict req =
           \<lparr>status_code = 200,
            content = JObj [(''jsonrpc'', JStr ''2.0''), (''id'', rpc_id body),
                            (''result'', JObj (format_tool_result r))],
            headers = []\<rparr>
         \<and> json_get (content (post_mcp fnm API_KEYS tools_dict req)) ''error'' = None
         \<and> dict_get (format_tool_result r) ''isError'' = Some (JBool True)
         \<and> dict_get (format_tool_result r) ''content'' =
             Some (JList [JObj [(''type'', JStr ''text''), (''text'', JStr (to_text_output r))]])"
proof -
  have d: "dispatch fnm tools_dict body req' = Inr (format_tool_result r)"
    using assms(3-5) by (simp add: dispatch_def handle_tools_call_def Let_def)
  have p: "post_mcp fnm API_KEYS tools_dict req =
           \<lparr>status_code = 200,
            content = JObj [(''jsonrpc'', JStr ''2.0''), (''id'', rpc_id body),
                            (''result'', JObj (format_tool_result r))],
            headers = []\<rparr>"
    using assms(1,2) d by (simp add: post_mcp_def mcp_endpoint_def Let_def)
  have e: "json_get (content (post_mcp fnm API_KEYS tools_dict req)) ''error'' = None"
    by (simp add: p json_get_def dict_get_def)
  have i: "dict_get (format_tool_result r) ''isError'' = Some (JBool True)"
    using assms(6) by (simp add: format_tool_result_def dict_get_def Let_def)
  have c: "dict_get (format_tool_result r) ''content'' =
             Some (JList [JObj [(''type'', JStr ''text''), (''text'', JStr (to_text_output r))]])"
    by (simp add: format_tool_result_def dict_get_def Let_def)
  show ?thesis using p e i c by simp
qed

lemma url_call_verified:
  "verify_api_key one_key url_call =
     Inr ([''*''], url_call\<lparr>state_allowed_tools := Some [''*''], state_excluded_tools := Some [],
                             state_api_key := Some ''T''\<rparr>)"
  by (simp add: verify_api_key_def one_key_def url_call_def split_Bearer_T lower_Bearer_scheme
      dict_get_def opt_list_def Let_def)

text \<open>The agent timeout of the specification's scenario 5, through the endpoint.\<close>

theorem failed_result_is_not_rpc_error_witness:
  "post_mcp glob_match one_key url_tools url_call =
     \<lparr>status_code = 200,
      content = JObj [(''jsonrpc'', JStr ''2.0''), (''id'', JInt 7),
                      (''result'', JObj (format_tool_result timeout_result))],
      headers = []\<rparr>
   \<and> dict_get (format_tool_result timeout_result) ''isError'' = Some (JBool True)"
proof -
  let ?req' = "url_call\<lparr>state_allowed_tools := Some [''*''], state_excluded_tools := Some [],
                             state_api_key := Some ''T''\<rparr>"
  have b: "json_body ?req' = Some url_body" by (simp add: url_call_def)
  have m: "rpc_method url_body = Some ''tools/call''" by (simp add: url_body_def)
  have a: "is_tool_allowed glob_match ?req' (rpc_tool_name url_body)"
    by (simp add: is_tool_allowed_def get_excluded_tools_def get_allowed_tools_def)
  have x: "execute url_tools (rpc_tool_name url_body) (rpc_arguments url_body) (Some ?req')
             = Inr timeout_result"
    by (simp add: execute_def url_tools_def register_def dict_get_def url_body_def)
  have s: "\<not> success timeout_result" by (simp add: timeout_result_def)
  show ?thesis
    using failed_result_is_not_rpc_error [OF url_call_verified b m a x s]
    by (simp add: url_body_def)
qed

section \<open>The agent bridge\<close>

text \<open>The slots of a new bridge are created, and every step keeps them so.\<close>

lemma slots_created_initial: "slots_created initial_bridge"
  by (simp add: slots_created_def initial_bridge_def)

lemma handshake_keeps:
  "pending_requests (snd (handshake T ws inp ok st)) = pending_requests st
   \<and> futures (snd (handshake T ws inp ok st)) = futures st"
  by (cases inp) (simp_all add: handshake_def close_def ws_send_def Let_def)

lemma handle_message_inv:
  assumes "slot_inv rid f st"
  shows "slot_inv rid f (handle_message m st)"
proof (cases m)
  case (Response data)
  show ?thesis
  proof (cases "reply_request_id data")
    case None
    then show ?thesis using assms Response by (simp add: handle_message_def)
  next
    case (Some k)
    show ?thesis
    proof (cases "dict_get (pending_requests st) k")
      case None
      then show ?thesis using assms Response Some by (simp add: handle_message_def)
    next
      case g: (Some g)
      have mem: "(k, g) \<in> set (pending_requests st)" using g by (rule dict_get_mem)
      let ?p = "dict_pop k (pending_requests st)"
      have sub: "set ?p \<subseteq> set (pending_requests st)" by (rule dict_pop_subset)
      show ?thesis
      proof (cases "g = f")
        case True
        then have "k = rid" using assms mem by (auto simp: slot_inv_def)
        then show ?thesis
          using assms Response Some g True sub dict_pop_keys [of rid "pending_requests st"]
          by (auto simp: handle_message_def slot_inv_def fut_done_def Let_def)
      next
        case False
        then show ?thesis
          using assms Response Some g sub
          by (auto simp: handle_message_def slot_inv_def fut_done_def Let_def dict_keys_pop)
      qed
    qed
  qed
qed (use assms in \<open>simp_all add: handle_message_def\<close>)

lemma env_step_inv:
  assumes "slot_inv rid f st"
  shows "slot_inv rid f (env_step T ev st)"
proof (cases ev)
  case (Message m)
  then show ?thesis using handle_message_inv [OF assms] by (simp add: env_step_def)
next
  case (Accept ws)
  then show ?thesis using assms by (simp add: env_step_def accept_def slot_inv_def)
next
  case (Handshake ws inp ok)
  then show ?thesis using assms handshake_keeps [of T ws inp ok st]
    by (simp add: env_step_def slot_inv_def)
next
  case (LoopEnd ws)
  then show ?thesis using assms
    by (simp add: env_step_def message_loop_end_def close_def slot_inv_def)
qed

lemma slots_created_env_step:
  assumes "slots_created st"
  shows "slots_created (env_step T ev st)"
proof (cases ev)
  case (Message m)
  have sub: "\<And>k. set (dict_pop k (pending_requests st)) \<subseteq> set (pending_requests st)"
    by (rule dict_pop_subset)
  show ?thesis
    using assms Message sub
    by (cases m)
       (auto simp: env_step_def handle_message_def slots_created_def list_all_iff Let_def
             split: option.splits)
next
  case (Accept ws)
  then show ?thesis using assms by (simp add: env_step_def accept_def slots_created_def)
next
  case (Handshake ws inp ok)
  then show ?thesis using assms handshake_keeps [of T ws inp ok st]
    by (simp add: env_step_def slots_created_def)
next
  case (LoopEnd ws)
  then show ?thesis using assms
    by (simp add: env_step_def message_loop_end_def close_def slots_created_def)
qed

lemma env_step_still_pending:
  assumes "slot_inv rid f st" and "futures st ! f = FPending" and "\<not> replies_to rid ev"
  shows "futures (env_step T ev st) ! f = FPending"
proof (cases ev)
  case (Message m)
  show ?thesis
  proof (cases m)
    case (Response data)
    show ?thesis
    proof (cases "reply_request_id data")
      case None
      then show ?thesis using assms Message Response by (simp add: env_step_def handle_message_def)
    next
      case (Some k)
      then have ne: "k \<noteq> rid" using assms(3) Message Response by (simp add: replies_to_def)
      show ?thesis
      proof (cases "dict_get (pending_requests st) k")
        case None
        then show ?thesis using assms Message Response Some
          by (simp add: env_step_def handle_message_def)
      next
        case g: (Some g)
        have "(k, g) \<in> set (pending_requests st)" using g by (rule dict_get_mem)
        then have "g \<noteq> f" using assms(1) ne by (auto simp: slot_inv_def)
        then show ?thesis using assms Message Response Some g
          by (simp add: env_step_def handle_message_def Let_def)
      qed
    qed
  qed (use assms Message in \<open>simp_all add: env_step_def handle_message_def\<close>)
next
  case (Accept ws)
  then show ?thesis using assms by (simp add: env_step_def accept_def)
next
  case (Handshake ws inp ok)
  then show ?thesis using assms handshake_keeps [of T ws inp ok st] by (simp add: env_step_def)
next
  case (LoopEnd ws)
  then show ?thesis using assms by (simp add: env_step_def message_loop_end_def close_def)
qed

lemma env_step_keeps_slot:
  assumes "dict_get (pending_requests st) rid = Some f" and "\<not> replies_to rid ev"
  shows "dict_get (pending_requests (env_step T ev st)) rid = Some f"
proof (cases ev)
  case (Message m)
  show ?thesis
  proof (cases m)
    case (Response data)
    show ?thesis
    proof (cases "reply_request_id data")
      case None
      then show ?thesis using assms Message Response by (simp add: env_step_def handle_message_def)
    next
      case (Some k)
      then have ne: "rid \<noteq> k" using assms(2) Message Response by (auto simp: replies_to_def)
      show ?thesis
        using assms(1) Message Response Some dict_get_dict_pop [OF ne, of "pending_requests st"]
        by (simp add: env_step_def handle_message_def Let_def split: option.splits)
    qed
  qed (use assms Message in \<open>simp_all add: env_step_def handle_message_def\<close>)
next
  case (Accept ws)
  then show ?thesis using assms by (simp add: env_step_def accept_def)
next
  case (Handshake ws inp ok)
  then show ?thesis using assms handshake_keeps [of T ws inp ok st] by (simp add: env_step_def)
next
  case (LoopEnd ws)
  then show ?thesis using assms by (simp add: env_step_def message_loop_end_def close_def)
qed

lemma wait_for_released:
  assumes "slot_inv rid f st" and "fst (wait_for T f evs st) = WaitResult r"
  shows "rid \<notin> set (dict_keys (pending_requests (snd (wait_for T f evs st))))"
  using assms
proof (induction evs arbitrary: st)
  case Nil
  then show ?case by (cases "futures st ! f") (auto simp: slot_inv_def)
next
  case (Cons wev evs)
  show ?case
  proof (cases "futures st ! f")
    case (FResult r')
    then show ?thesis using Cons.prems by (cases wev) (auto simp: slot_inv_def)
  next
    case FPending
    show ?thesis
    proof (cases wev)
      case (Happens ev)
      then show ?thesis
        using FPending Cons.IH [OF env_step_inv [OF Cons.prems(1)]] Cons.prems(2) by simp
    next
      case CancelTask
      then show ?thesis using FPending Cons.prems(2) by simp
    qed
  next
    case FCancelled
    show ?thesis
    proof (cases wev)
      case (Happens ev)
      then show ?thesis
        using FCancelled Cons.IH [OF env_step_inv [OF Cons.prems(1)]] Cons.prems(2) by simp
    next
      case CancelTask
      then show ?thesis using FCancelled Cons.prems(2) by simp
    qed
  qed
qed

lemma wait_for_not_cancelled:
  assumes "CancelTask \<notin> set evs"
  shows "fst (wait_for T f evs st) \<noteq> WaitCancelled"
  using assms
proof (induction evs arbitrary: st)
  case Nil
  then show ?case by (cases "futures st ! f") simp_all
next
  case (Cons wev evs)
  then obtain ev where h: "wev = Happens ev" by (cases wev) auto
  have "CancelTask \<notin> set evs" using Cons.prems by simp
  then show ?case using Cons.IH h by (cases "futures st ! f") simp_all
qed

lemma issue_command_connected:
  assumes "is_connected st"
  shows "\<exists>ws. websocket st = Some ws \<and> ws \<in> set (open_conns st)
     \<and> issue_command rid a p SendReturns st =
         (Inr (length (futures st)),
          st\<lparr>futures := futures st @ [FPending],
             pending_requests := dict_set rid (length (futures st)) (pending_requests st),
             sent := sent st @ [(ws, Command rid a p)]\<rparr>)
     \<and> issue_command rid a p (SendRaises e) st =
         (Inl (SendError e),
          st\<lparr>futures := futures st @ [FPending],
             pending_requests := dict_pop rid (dict_set rid (length (futures st)) (pending_requests st))\<rparr>)
     \<and> issue_command rid a p SendCancelled st =
         (Inl CancelledError,
          st\<lparr>futures := futures st @ [FPending],
             pending_requests := dict_set rid (length (futures st)) (pending_requests st)\<rparr>)"
  using assms
  by (auto simp: is_connected_def issue_command_def create_future_def ws_send_def Let_def
      split: option.splits)

lemma slots_created_issue_command:
  assumes "slots_created st"
  shows "slots_created (snd (issue_command rid a p so st))"
proof (cases "is_connected st")
  case False
  then show ?thesis using assms
    by (auto simp: issue_command_def is_connected_def split: option.splits)
next
  case True
  have old: "\<forall>kv\<in>set (pending_requests st). snd kv < Suc (length (futures st))"
    using assms by (auto simp: slots_created_def list_all_iff)
  have new: "\<forall>kv\<in>set (dict_set rid (length (futures st)) (pending_requests st)).
               snd kv < Suc (length (futures st))"
    using old set_dict_set [of rid "length (futures st)" "pending_requests st"] by fastforce
  have pop: "\<forall>kv\<in>set (dict_pop rid (dict_set rid (length (futures st)) (pending_requests st))).
               snd kv < Suc (length (futures st))"
    using new dict_pop_subset [of rid "dict_set rid (length (futures st)) (pending_requests st)"]
    by blast
  show ?thesis
  proof (cases so)
    case SendReturns
    obtain ws where i: "issue_command rid a p SendReturns st =
         (Inr (length (futures st)),
          st\<lparr>futures := futures st @ [FPending],
             pending_requests := dict_set rid (length (futures st)) (pending_requests st),
             sent := sent st @ [(ws, Command rid a p)]\<rparr>)"
      using issue_command_connected [OF True] by blast
    show ?thesis using new by (simp add: SendReturns i slots_created_def list_all_iff)
  next
    case (SendRaises e)
    have i: "issue_command rid a p (SendRaises e) st =
         (Inl (SendError e),
          st\<lparr>futures := futures st @ [FPending],
             pending_requests := dict_pop rid (dict_set rid (length (futures st)) (pending_requests st))\<rparr>)"
      using issue_command_connected [OF True] by blast
    show ?thesis using pop by (simp add: SendRaises i slots_created_def list_all_iff)
  next
    case SendCancelled
    have i: "issue_command rid a p SendCancelled st =
         (Inl CancelledError,
          st\<lparr>futures := futures st @ [FPending],
             pending_requests := dict_set rid (length (futures st)) (pending_requests st)\<rparr>)"
      using issue_command_connected [OF True] by blast
    show ?thesis using new by (simp add: SendCancelled i slots_created_def list_all_iff)
  qed
qed

lemma slots_created_wait_for:
  assumes "slots_created st"
  shows "slots_created (snd (wait_for T f evs st))"
  using assms
proof (induction evs arbitrary: st)
  case Nil
  then show ?case by (cases "futures st ! f") (simp_all add: slots_created_def)
next
  case (Cons wev evs)
  show ?case
  proof (cases wev)
    case (Happens ev)
    then show ?thesis
      using Cons slots_created_env_step [OF Cons.prems, of T ev]
      by (cases "futures st ! f") simp_all
  next
    case CancelTask
    then show ?thesis
      using Cons.prems by (cases "futures st ! f") (simp_all add: slots_created_def)
  qed
qed

lemma slots_created_finish_command:
  assumes "slots_created (snd w)"
  shows "slots_created (snd (finish_command rid w))"
proof (cases w)
  case (Pair r st)
  have "\<forall>kv\<in>set (dict_pop rid (pending_requests st)). snd kv < length (futures st)"
    using assms Pair dict_pop_subset [of rid "pending_requests st"]
    by (auto simp: slots_created_def list_all_iff)
  then show ?thesis
    using assms Pair by (cases r) (auto simp: finish_command_def slots_created_def list_all_iff)
qed

lemma slots_created_send_command:
  assumes "slots_created st"
  shows "slots_created (snd (send_command T rid a p so evs st))"
proof (cases "issue_command rid a p so st")
  case (Pair res st1)
  have s1: "slots_created st1" using slots_created_issue_command [OF assms, of rid a p so] Pair by simp
  show ?thesis
  proof (cases res)
    case (Inl e)
    then show ?thesis using Pair s1 by (simp add: send_command_def)
  next
    case (Inr f)
    then show ?thesis
      using Pair slots_created_finish_command [OF slots_created_wait_for [OF s1, of T f evs], of rid]
      by (simp add: send_command_def)
  qed
qed

lemma issue_command_inv:
  assumes "slots_created st" and "is_connected st"
  shows "slot_inv rid (length (futures st)) (installed rid a p st)
         \<and> futures (installed rid a p st) ! length (futures st) = FPending
         \<and> dict_get (pending_requests (installed rid a p st)) rid = Some (length (futures st))"
proof -
  obtain ws where i: "issue_command rid a p SendReturns st =
         (Inr (length (futures st)),
          st\<lparr>futures := futures st @ [FPending],
             pending_requests := dict_set rid (length (futures st)) (pending_requests st),
             sent := sent st @ [(ws, Command rid a p)]\<rparr>)"
    using issue_command_connected [OF assms(2)] by blast
  have old: "\<forall>kv\<in>set (pending_requests st). snd kv < length (futures st)"
    using assms(1) by (simp add: slots_created_def list_all_iff)
  have new: "\<forall>kv\<in>set (dict_set rid (length (futures st)) (pending_requests st)).
               snd kv = length (futures st) \<longrightarrow> fst kv = rid"
    using old set_dict_set [of rid "length (futures st)" "pending_requests st"] by fastforce
  show ?thesis
    using new by (simp add: installed_def i slot_inv_def dict_get_dict_set)
qed

lemma finish_command_released:
  assumes "fst w \<noteq> WaitCancelled"
    and "\<forall>r. fst w = WaitResult r \<longrightarrow> rid \<notin> set (dict_keys (pending_requests (snd w)))"
  shows "rid \<notin> set (dict_keys (pending_requests (snd (finish_command rid w))))"
proof (cases w)
  case (Pair r st)
  then show ?thesis
    using assms dict_pop_keys [of rid "pending_requests st"]
    by (cases r) (auto simp: finish_command_def)
qed

lemma send_command_unfold:
  assumes "is_connected st"
  shows "send_command T rid a p SendReturns evs st =
           finish_command rid (wait_for T (length (futures st)) evs (installed rid a p st))"
proof -
  obtain ws where i: "issue_command rid a p SendReturns st =
         (Inr (length (futures st)),
          st\<lparr>futures := futures st @ [FPending],
             pending_requests := dict_set rid (length (futures st)) (pending_requests st),
             sent := sent st @ [(ws, Command rid a p)]\<rparr>)"
    using issue_command_connected [OF assms] by blast
  show ?thesis by (simp add: send_command_def installed_def i)
qed

lemma send_command_released:
  assumes "slots_created st" and "is_connected st"
    and "so \<noteq> SendCancelled" and "CancelTask \<notin> set evs"
  shows "rid \<notin> set (dict_keys (pending_requests (snd (send_command T rid a p so evs st))))"
proof (cases so)
  case SendReturns
  have inv: "slot_inv rid (length (futures st)) (installed rid a p st)"
    using issue_command_inv [OF assms(1,2)] by blast
  show ?thesis
    unfolding SendReturns send_command_unfold [OF assms(2)]
    by (rule finish_command_released)
       (use wait_for_released [OF inv] wait_for_not_cancelled [OF assms(4)] in blast)+
next
  case (SendRaises e)
  have i: "issue_command rid a p (SendRaises e) st =
         (Inl (SendError e),
          st\<lparr>futures := futures st @ [FPending],
             pending_requests := dict_pop rid (dict_set rid (length (futures st)) (pending_requests st))\<rparr>)"
    using issue_command_connected [OF assms(2)] by blast
  show ?thesis
    using dict_pop_keys [of rid "dict_set rid (length (futures st)) (pending_requests st)"]
    by (simp add: SendRaises send_command_def i)
next
  case SendCancelled
  then show ?thesis using assms(3) by simp
qed

lemma send_command_no_agent:
  assumes "\<not> is_connected st"
  shows "send_command T rid a p so evs st = (Inl (RuntimeError NO_AGENT), st)"
  using assms
  by (auto simp: send_command_def issue_command_def is_connected_def split: option.splits)

lemma wait_for_first_reply:
  assumes "futures st ! f = FPending" and "f < length (futures st)"
    and "dict_get (pending_requests st) rid = Some f"
    and "reply_request_id r = Some rid"
  shows "fst (wait_for T f (Happens (Message (Response r)) # evs) st) = WaitResult r"
proof -
  let ?st' = "handle_message (Response r) st"
  have "futures ?st' ! f = FResult r"
    using assms by (simp add: handle_message_def fut_done_def Let_def)
  have "fst (wait_for T f evs ?st') = WaitResult r"
  proof (cases evs)
    case Nil
    then show ?thesis using \<open>futures ?st' ! f = FResult r\<close> by simp
  next
    case (Cons wev es)
    then show ?thesis using \<open>futures ?st' ! f = FResult r\<close> by (cases wev) simp_all
  qed
  then show ?thesis using assms(1) by (simp add: env_step_def)
qed

lemma wait_for_timeout:
  assumes "slot_inv rid f st" and "futures st ! f = FPending"
    and "\<forall>wev\<in>set evs. passes_by rid wev"
  shows "fst (wait_for T f evs st) = WaitTimeout"
  using assms
proof (induction evs arbitrary: st)
  case Nil
  then show ?case by simp
next
  case (Cons wev evs)
  then obtain ev where h: "wev = Happens ev" and n: "\<not> replies_to rid ev"
    by (cases wev) (auto simp: passes_by_def)
  have p: "futures (env_step T ev st) ! f = FPending"
    using env_step_still_pending [OF Cons.prems(1,2) n] .
  show ?case
    using Cons.IH [OF env_step_inv [OF Cons.prems(1)] p] Cons.prems(2,3) h by simp
qed

lemma wait_for_reply_after:
  assumes "slot_inv rid f st" and "futures st ! f = FPending"
    and "dict_get (pending_requests st) rid = Some f"
    and "\<forall>wev\<in>set pre. passes_by rid wev"
    and "reply_request_id r = Some rid"
  shows "fst (wait_for T f (pre @ Happens (Message (Response r)) # post) st) = WaitResult r"
  using assms(1-4)
proof (induction pre arbitrary: st)
  case Nil
  have "f < length (futures st)" using Nil.prems(1) by (simp add: slot_inv_def)
  then show ?case
    using wait_for_first_reply [OF Nil.prems(2) _ Nil.prems(3) assms(5)] by simp
next
  case (Cons wev pre)
  then obtain ev where h: "wev = Happens ev" and n: "\<not> replies_to rid ev"
    by (cases wev) (auto simp: passes_by_def)
  have p: "futures (env_step T ev st) ! f = FPending"
    using env_step_still_pending [OF Cons.prems(1,2) n] .
  have k: "dict_get (pending_requests (env_step T ev st)) rid = Some f"
    using env_step_keeps_slot [OF Cons.prems(3) n] .
  show ?case
    using Cons.IH [OF env_step_inv [OF Cons.prems(1)] p k] Cons.prems(2,4) h by simp
qed

lemma wait_for_cancelled:
  assumes "slot_inv rid f st" and "futures st ! f = FPending"
    and "dict_get (pending_requests st) rid = Some f"
    and "\<forall>wev\<in>set pre. passes_by rid wev"
  shows "fst (wait_for T f (pre @ CancelTask # post) st) = WaitCancelled
         \<and> dict_get (pending_requests (snd (wait_for T f (pre @ CancelTask # post) st))) rid = Some f"
  using assms
proof (induction pre arbitrary: st)
  case Nil
  then show ?case by simp
next
  case (Cons wev pre)
  then obtain ev where h: "wev = Happens ev" and n: "\<not> replies_to rid ev"
    by (cases wev) (auto simp: passes_by_def)
  have p: "futures (env_step T ev st) ! f = FPending"
    using env_step_still_pending [OF Cons.prems(1,2) n] .
  have k: "dict_get (pending_requests (env_step T ev st)) rid = Some f"
    using env_step_keeps_slot [OF Cons.prems(3) n] .
  show ?case
    using Cons.IH [OF env_step_inv [OF Cons.prems(1)] p k] Cons.prems(2,4) h by simp
qed

lemma dict_get_key: "dict_get d k = Some v \<Longrightarrow> k \<in> set (dict_keys d)"
  using dict_get_mem [of d k v] by (force simp: dict_keys_def)

text \<open>
  What holds of \<open>send_command\<close> as long as its task is not cancelled, from every bridge
  whose slots are created. Without an open connection it raises \<open>RuntimeError\<close> (no
  agent) and leaves the state as it was, so no slot is installed. With one: the slot of
  the identifier is gone when the call ends, whether the send raised, a reply came or the
  wait timed out; the first reply to the identifier, when its \<open>success\<close> is not true,
  makes it raise \<open>RuntimeError\<close> with the \<open>error\<close> text of the reply; and when no reply
  to the identifier comes before the timeout it raises \<open>TimeoutError\<close>.
\<close>

lemma send_command_uncancelled:
  assumes "slots_created st"
  shows "(\<not> is_connected st \<longrightarrow>
            send_command T rid a p so evs st = (Inl (RuntimeError NO_AGENT), st))
       \<and> (is_connected st \<and> so \<noteq> SendCancelled \<and> CancelTask \<notin> set evs \<longrightarrow>
            rid \<notin> set (dict_keys (pending_requests (snd (send_command T rid a p so evs st)))))
       \<and> (is_connected st \<and> (\<forall>wev\<in>set pre. passes_by rid wev)
            \<and> reply_request_id r = Some rid \<and> reply_success r \<noteq> Some True \<longrightarrow>
            fst (send_command T rid a p SendReturns
                   (pre @ Happens (Message (Response r)) # post) st) =
              Inl (RuntimeError (REMOTE_FAILED
                     @ (case reply_error r of None \<Rightarrow> UNKNOWN_ERROR | Some e \<Rightarrow> e))))
       \<and> (is_connected st \<and> (\<forall>wev\<in>set evs. passes_by rid wev) \<longrightarrow>
            fst (send_command T rid a p SendReturns evs st) = Inl TimeoutError)"
proof (intro conjI impI)
  assume "\<not> is_connected st"
  then show "send_command T rid a p so evs st = (Inl (RuntimeError NO_AGENT), st)"
    by (rule send_command_no_agent)
next
  assume "is_connected st \<and> so \<noteq> SendCancelled \<and> CancelTask \<notin> set evs"
  then show "rid \<notin> set (dict_keys (pending_requests (snd (send_command T rid a p so evs st))))"
    using send_command_released [OF assms] by blast
next
  assume h: "is_connected st \<and> (\<forall>wev\<in>set pre. passes_by rid wev)
            \<and> reply_request_id r = Some rid \<and> reply_success r \<noteq> Some True"
  then have c: "is_connected st" by simp
  note inv = issue_command_inv [OF assms c, of rid a p]
  have w: "fst (wait_for T (length (futures st)) (pre @ Happens (Message (Response r)) # post)
                  (installed rid a p st)) = WaitResult r"
    using wait_for_reply_after [of rid "length (futures st)" "installed rid a p st" pre r T post]
      inv h
    by blast
  obtain st' where w': "wait_for T (length (futures st))
                          (pre @ Happens (Message (Response r)) # post)
                          (installed rid a p st) = (WaitResult r, st')"
    using w by (metis prod.collapse)
  have s: "\<not> (case reply_success r of None \<Rightarrow> False | Some b \<Rightarrow> b)"
    using h by (cases "reply_success r") auto
  show "fst (send_command T rid a p SendReturns
               (pre @ Happens (Message (Response r)) # post) st) =
              Inl (RuntimeError (REMOTE_FAILED
                     @ (case reply_error r of None \<Rightarrow> UNKNOWN_ERROR | Some e \<Rightarrow> e)))"
    using s unfolding send_command_unfold [OF c] w' by (simp add: finish_command_def)
next
  assume h: "is_connected st \<and> (\<forall>wev\<in>set evs. passes_by rid wev)"
  then have c: "is_connected st" by simp
  note inv = issue_command_inv [OF assms c, of rid a p]
  have w: "fst (wait_for T (length (futures st)) evs (installed rid a p st)) = WaitTimeout"
    using wait_for_timeout [of rid "length (futures st)" "installed rid a p st" evs T] inv h by blast
  obtain st' where w': "wait_for T (length (futures st)) evs (installed rid a p st)
                          = (WaitTimeout, st')"
    using w by (metis prod.collapse)
  show "fst (send_command T rid a p SendReturns evs st) = Inl TimeoutError"
    unfolding send_command_unfold [OF c] w' by (simp add: finish_command_def)
qed

text \<open>
  When the task is cancelled, at the send or during the wait before any reply to the
  identifier, the call ends with \<open>CancelledError\<close> and the slot of the identifier is
  still in the table.
\<close>

lemma send_command_cancelled:
  assumes "slots_created st" and "is_connected st"
  shows "(fst (send_command T rid a p SendCancelled evs st) = Inl CancelledError
          \<and> rid \<in> set (dict_keys (pending_requests
                (snd (send_command T rid a p SendCancelled evs st)))))
       \<and> ((\<forall>wev\<in>set pre. passes_by rid wev) \<longrightarrow>
            fst (send_command T rid a p SendReturns (pre @ CancelTask # post) st)
              = Inl CancelledError
            \<and> rid \<in> set (dict_keys (pending_requests
                  (snd (send_command T rid a p SendReturns (pre @ CancelTask # post) st)))))"
proof (intro conjI impI)
  have i: "issue_command rid a p SendCancelled st =
         (Inl CancelledError,
          st\<lparr>futures := futures st @ [FPending],
             pending_requests := dict_set rid (length (futures st)) (pending_requests st)\<rparr>)"
    using issue_command_connected [OF assms(2)] by blast
  show "fst (send_command T rid a p SendCancelled evs st) = Inl CancelledError"
    by (simp add: send_command_def i)
  have "dict_get (dict_set rid (length (futures st)) (pending_requests st)) rid
          = Some (length (futures st))"
    by (simp add: dict_get_dict_set)
  then show "rid \<in> set (dict_keys (pending_requests
                (snd (send_command T rid a p SendCancelled evs st))))"
    using dict_get_key by (fastforce simp: send_command_def i)
next
  assume q: "\<forall>wev\<in>set pre. passes_by rid wev"
  note inv = issue_command_inv [OF assms, of rid a p]
  have w: "fst (wait_for T (length (futures st)) (pre @ CancelTask # post) (installed rid a p st))
             = WaitCancelled
           \<and> dict_get (pending_requests (snd (wait_for T (length (futures st))
                 (pre @ CancelTask # post) (installed rid a p st)))) rid
             = Some (length (futures st))"
    using wait_for_cancelled [of rid "length (futures st)" "installed rid a p st" pre T post] inv q
    by blast
  obtain st' where w': "wait_for T (length (futures st)) (pre @ CancelTask # post)
                          (installed rid a p st) = (WaitCancelled, st')"
    using w by (metis prod.collapse)
  have k: "dict_get (pending_requests st') rid = Some (length (futures st))"
    using w w' by simp
  show "fst (send_command T rid a p SendReturns (pre @ CancelTask # post) st) = Inl CancelledError"
    unfolding send_command_unfold [OF assms(2)] w' by (simp add: finish_command_def)
  show "rid \<in> set (dict_keys (pending_requests
                  (snd (send_command T rid a p SendReturns (pre @ CancelTask # post) st))))"
    unfolding send_command_unfold [OF assms(2)] w'
    using dict_get_key [OF k] by (simp add: finish_command_def)
qed

lemma a1_connected_is_connected: "is_connected a1_connected \<and> slots_created a1_connected"
  by (simp add: a1_connected_def handshake_def agent_auth_def accept_def initial_bridge_def
      ws_send_def or_unknown_def is_connected_def slots_created_def Let_def)

lemma a1_connected_eq:
  "a1_connected =
     \<lparr>websocket = Some 1, pending_requests = [],
      connection_info = [(''client_id'', ''A1''), (''user_agent'', ''agent''), (''connected_at'', ''now'')],
      open_conns = [1], futures = [], sent = [(1, AuthSuccess)]\<rparr>"
  by (simp add: a1_connected_def handshake_def agent_auth_def accept_def initial_bridge_def
      ws_send_def or_unknown_def Let_def)

text \<open>
  C5, at a call whose task is cancelled, on the bridge with agent 1 connected. Cancelled
  while it waits for the reply, or cancelled at the send, \<open>send_command\<close> ends with
  \<open>CancelledError\<close> and the slot of \<open>r1\<close> is still installed in \<open>pending_requests\<close>;
  the claim has the slot released in every outcome, and the same call that times out
  does leave the table empty.
\<close>

theorem cancelled_call_keeps_slot:
  "is_connected a1_connected
   \<and> fst (send_command ''secret'' ''r1'' ''get_url'' (JObj []) SendReturns [CancelTask]
            a1_connected) = Inl CancelledError
   \<and> pending_requests (snd (send_command ''secret'' ''r1'' ''get_url'' (JObj []) SendReturns
            [CancelTask] a1_connected)) = [(''r1'', 0)]
   \<and> fst (send_command ''secret'' ''r1'' ''get_url'' (JObj []) SendCancelled []
            a1_connected) = Inl CancelledError
   \<and> pending_requests (snd (send_command ''secret'' ''r1'' ''get_url'' (JObj []) SendCancelled
            [] a1_connected)) = [(''r1'', 0)]
   \<and> fst (send_command ''secret'' ''r1'' ''get_url'' (JObj []) SendReturns [] a1_connected)
       = Inl TimeoutError
   \<and> pending_requests (snd (send_command ''secret'' ''r1'' ''get_url'' (JObj []) SendReturns
            [] a1_connected)) = []"
  by (simp add: a1_connected_eq is_connected_def send_command_def issue_command_def
      create_future_def ws_send_def finish_command_def dict_pop_def Let_def)

text \<open>
  Uncancelled calls on the same bridge: a reply with \<open>success = false\<close> and the error
  \<open>no such page\<close> after an event frame, and a wait during which only an event frame
  arrives. Before agent 1 connects, no agent.
\<close>

lemma send_command_uncancelled_example:
  "''r1'' \<notin> set (dict_keys (pending_requests (snd
        (send_command ''secret'' ''r1'' ''get_url'' (JObj []) SendReturns
           [Happens (Message EventFrame)] a1_connected))))
   \<and> fst (send_command ''secret'' ''r1'' ''get_url'' (JObj []) SendReturns
        [Happens (Message EventFrame),
         Happens (Message (Response \<lparr>reply_request_id = Some ''r1'', reply_success = Some False,
                             reply_data = None, reply_error = Some ''no such page''\<rparr>))]
        a1_connected) = Inl (RuntimeError (REMOTE_FAILED @ ''no such page''))
   \<and> fst (send_command ''secret'' ''r1'' ''get_url'' (JObj []) SendReturns
        [Happens (Message EventFrame)] a1_connected) = Inl TimeoutError
   \<and> send_command ''secret'' ''r1'' ''get_url'' (JObj []) SendReturns [] initial_bridge
       = (Inl (RuntimeError NO_AGENT), initial_bridge)"
proof -
  have c: "is_connected a1_connected" and s: "slots_created a1_connected"
    using a1_connected_is_connected by simp_all
  have n: "\<not> is_connected initial_bridge"
    by (simp add: is_connected_def initial_bridge_def)
  have q: "\<forall>wev\<in>set [Happens (Message EventFrame)]. passes_by ''r1'' wev"
    by (simp add: passes_by_def replies_to_def)
  have nc: "CancelTask \<notin> set [Happens (Message EventFrame)]" by simp
  let ?r = "\<lparr>reply_request_id = Some ''r1'', reply_success = Some False,
             reply_data = None, reply_error = Some ''no such page''\<rparr>"
  have r: "reply_request_id ?r = Some ''r1'' \<and> reply_success ?r \<noteq> Some True" by simp
  show ?thesis
    using send_command_uncancelled [OF s, of "''secret''" "''r1''" "''get_url''" "JObj []"
            SendReturns "[Happens (Message EventFrame)]" "[Happens (Message EventFrame)]" ?r "[]"]
          send_command_uncancelled [OF slots_created_initial, of "''secret''" "''r1''" "''get_url''"
            "JObj []" SendReturns "[]" "[]" ?r "[]"]
          c s n q nc r
    by simp
qed

lemma a1_in_flight_eq:
  "a1_in_flight =
     \<lparr>websocket = Some 1, pending_requests = [(''r1'', 0)],
      connection_info = [(''client_id'', ''A1''), (''user_agent'', ''agent''), (''connected_at'', ''now'')],
      open_conns = [1], futures = [FPending],
      sent = [(1, AuthSuccess), (1, Command ''r1'' ''get_url'' (JObj []))]\<rparr>"
  by (simp add: a1_in_flight_def a1_connected_eq issue_command_def create_future_def ws_send_def Let_def)

lemma a2_handshake_eq:
  "a2_handshake =
     (True,
      \<lparr>websocket = Some 2, pending_requests = [(''r1'', 0)],
       connection_info = [(''client_id'', ''A2''), (''user_agent'', ''agent''), (''connected_at'', ''now'')],
       open_conns = [2, 1], futures = [FPending],
       sent = [(1, AuthSuccess), (1, Command ''r1'' ''get_url'' (JObj [])), (2, AuthSuccess)]\<rparr>)"
  by (simp add: a2_handshake_def a1_in_flight_eq handshake_def agent_auth_def accept_def
      ws_send_def or_unknown_def Let_def)

lemma handle_message_connections:
  "websocket (handle_message m st) = websocket st
   \<and> sent (handle_message m st) = sent st
   \<and> open_conns (handle_message m st) = open_conns st"
  by (cases m) (simp_all add: handle_message_def Let_def split: option.splits)

lemma quiet_step:
  assumes "quiet ev"
  shows "websocket (env_step T ev st) = websocket st
         \<and> sent (env_step T ev st) = sent st
         \<and> set (open_conns st) \<subseteq> set (open_conns (env_step T ev st))"
  using assms handle_message_connections
  by (cases ev) (auto simp: quiet_def env_step_def accept_def)

lemma run_events_quiet:
  assumes "\<forall>ev\<in>set evs. quiet ev"
  shows "websocket (run_events T evs st) = websocket st
         \<and> sent (run_events T evs st) = sent st
         \<and> set (open_conns st) \<subseteq> set (open_conns (run_events T evs st))"
  using assms
proof (induction evs arbitrary: st)
  case Nil
  then show ?case by (simp add: run_events_def)
next
  case (Cons ev evs)
  have q: "quiet ev" and r: "\<forall>e\<in>set evs. quiet e" using Cons.prems by simp_all
  have "run_events T (ev # evs) st = run_events T evs (env_step T ev st)"
    by (simp add: run_events_def)
  then show ?case
    using Cons.IH [OF r, of "env_step T ev st"] quiet_step [OF q, of T st] by auto
qed

lemma issue_command_sends:
  assumes "websocket st = Some ws" and "ws \<in> set (open_conns st)"
  shows "sent (snd (issue_command rid a p SendReturns st)) = sent st @ [(ws, Command rid a p)]"
  using assms by (simp add: issue_command_def create_future_def ws_send_def Let_def)

text \<open>
  C4, as the code has it: the manager refers to at most one connection. A handshake
  that succeeds makes its connection the one the manager refers to; it closes no
  transport, and it leaves the pending slots and their futures as they were. A command
  issued afterwards, with only messages handled and transports accepted in between, is
  sent on the new connection.
\<close>

theorem handshake_replaces_reference:
  assumes "auth_type d = Some ''auth''" and "auth_token d = Some T"
  shows "fst (handshake T ws (AuthFrame d) True st) = True
       \<and> websocket (snd (handshake T ws (AuthFrame d) True st)) = Some ws
       \<and> (\<forall>c. websocket (snd (handshake T ws (AuthFrame d) True st)) = Some c \<longrightarrow> c = ws)
       \<and> open_conns (snd (handshake T ws (AuthFrame d) True st)) = open_conns st
       \<and> pending_requests (snd (handshake T ws (AuthFrame d) True st)) = pending_requests st
       \<and> futures (snd (handshake T ws (AuthFrame d) True st)) = futures st
       \<and> (ws \<in> set (open_conns st) \<and> (\<forall>ev\<in>set evs. quiet ev) \<longrightarrow>
            websocket (run_events T evs (snd (handshake T ws (AuthFrame d) True st))) = Some ws
            \<and> is_connected (run_events T evs (snd (handshake T ws (AuthFrame d) True st)))
            \<and> sent (snd (issue_command rid a p SendReturns
                      (run_events T evs (snd (handshake T ws (AuthFrame d) True st))))) =
                sent st @ [(ws, AuthSuccess), (ws, Command rid a p)])"
proof -
  let ?st' = "snd (handshake T ws (AuthFrame d) True st)"
  have h: "fst (handshake T ws (AuthFrame d) True st) = True
       \<and> websocket ?st' = Some ws \<and> open_conns ?st' = open_conns st
       \<and> pending_requests ?st' = pending_requests st \<and> futures ?st' = futures st
       \<and> sent ?st' = sent st @ [(ws, AuthSuccess)]"
    using assms by (simp add: handshake_def ws_send_def Let_def)
  have r: "ws \<in> set (open_conns st) \<and> (\<forall>ev\<in>set evs. quiet ev) \<longrightarrow>
            websocket (run_events T evs ?st') = Some ws
            \<and> is_connected (run_events T evs ?st')
            \<and> sent (snd (issue_command rid a p SendReturns (run_events T evs ?st'))) =
                sent st @ [(ws, AuthSuccess), (ws, Command rid a p)]"
  proof
    assume a: "ws \<in> set (open_conns st) \<and> (\<forall>ev\<in>set evs. quiet ev)"
    then have q: "\<forall>ev\<in>set evs. quiet ev" by simp
    note k = run_events_quiet [OF q, of T ?st']
    have w: "websocket (run_events T evs ?st') = Some ws" using k h by simp
    have o: "ws \<in> set (open_conns (run_events T evs ?st'))" using k h a by auto
    have c: "is_connected (run_events T evs ?st')" using w o by (simp add: is_connected_def)
    have s: "sent (snd (issue_command rid a p SendReturns (run_events T evs ?st'))) =
                sent st @ [(ws, AuthSuccess), (ws, Command rid a p)]"
      using issue_command_sends [OF w o, of rid a p] k h by simp
    show "websocket (run_events T evs ?st') = Some ws
            \<and> is_connected (run_events T evs ?st')
            \<and> sent (snd (issue_command rid a p SendReturns (run_events T evs ?st'))) =
                sent st @ [(ws, AuthSuccess), (ws, Command rid a p)]"
      using w c s by simp
  qed
  show ?thesis using h r by simp
qed

text \<open>
  Agent 2 replaces agent 1, an event frame is handled, and the command \<open>r2\<close> goes to
  agent 2.
\<close>

theorem handshake_replaces_reference_witness:
  "fst a2_handshake = True
   \<and> websocket (snd a2_handshake) = Some 2
   \<and> open_conns (snd a2_handshake) = [2, 1]
   \<and> pending_requests (snd a2_handshake) = [(''r1'', 0)]
   \<and> futures (snd a2_handshake) = [FPending]
   \<and> sent (snd (issue_command ''r2'' ''get_title'' (JObj []) SendReturns
              (run_events ''secret'' [Message EventFrame] (snd a2_handshake)))) =
       [(1, AuthSuccess), (1, Command ''r1'' ''get_url'' (JObj [])), (2, AuthSuccess),
        (2, Command ''r2'' ''get_title'' (JObj []))]"
proof -
  let ?d = "\<lparr>auth_type = Some ''auth'', auth_token = Some ''secret'',
                auth_client_id = Some ''A2'', auth_user_agent = Some ''agent'',
                auth_timestamp = Some ''now''\<rparr>"
  have t: "auth_type ?d = Some ''auth''" by simp
  have k: "auth_token ?d = Some ''secret''" by simp
  have o: "(2::nat) \<in> set (open_conns (accept 2 a1_in_flight))" by (simp add: accept_def)
  have q: "\<forall>ev\<in>set [Message EventFrame]. quiet ev" by (simp add: quiet_def)
  show ?thesis
    using handshake_replaces_reference [OF t k, of 2 "accept 2 a1_in_flight"
            "[Message EventFrame]" "''r2''" "''get_title''" "JObj []"] o q
    by (simp add: a2_handshake_def agent_auth_def accept_def a1_in_flight_eq)
qed

text \<open>
  When the message loop of the replaced connection ends later, its \<open>finally\<close> clause
  makes the manager forget the connection it refers to, the new one.
\<close>

lemma old_loop_end_forgets_new:
  "websocket (message_loop_end 1 (snd a2_handshake)) = None
   \<and> 2 \<in> set (open_conns (message_loop_end 1 (snd a2_handshake)))
   \<and> \<not> is_connected (message_loop_end 1 (snd a2_handshake))"
  by (simp add: a2_handshake_eq message_loop_end_def close_def is_connected_def)

text \<open>
  C4 as stated fails: agent 1 is connected with the command \<open>r1\<close> in flight when the
  handshake of agent 2 succeeds. Afterwards the transport of agent 1 is still open, the
  slot of \<open>r1\<close> is still installed and its future still pending; and the call that sent
  \<open>r1\<close> ends with \<open>TimeoutError\<close>.
\<close>

theorem replacement_counterexample:
  "is_connected a1_in_flight
   \<and> fst a2_handshake = True
   \<and> websocket (snd a2_handshake) = Some 2
   \<and> 1 \<in> set (open_conns (snd a2_handshake))
   \<and> dict_get (pending_requests (snd a2_handshake)) ''r1'' = Some 0
   \<and> futures (snd a2_handshake) ! 0 = FPending
   \<and> fst (send_command ''secret'' ''r1'' ''get_url'' (JObj []) SendReturns
            [Happens (Accept 2), Happens (Handshake 2 (agent_auth ''A2'') True)] a1_connected)
       = Inl TimeoutError"
  by (simp add: a2_handshake_eq a1_in_flight_eq a1_connected_eq is_connected_def dict_get_def
      send_command_def issue_command_def create_future_def ws_send_def env_step_def accept_def
      handshake_def agent_auth_def finish_command_def or_unknown_def Let_def)

end
